theory Spec2Isabelle
  imports Main
begin

section \<open>The Storwize/SVC iSCSI volume driver\<close>

text \<open>
  A shallow embedding of \<^verbatim>\<open>cinder/volume/drivers/ibm/storwize_svc/storwize_svc_iscsi.py\<close>,
  class \<^verbatim>\<open>StorwizeSVCISCSIDriver\<close>: \<^verbatim>\<open>do_setup\<close>, \<^verbatim>\<open>validate_connector\<close>,
  \<^verbatim>\<open>initialize_connection\<close> and \<^verbatim>\<open>terminate_connection\<close>.

  Python dictionaries are association lists in the dictionary's iteration order (the
  order decides which node of an I/O group is the first one); a key is looked up with
  \<open>map_of\<close>. Exceptions are values of the type \<open>error\<close>; a method is a function from
  the world (the storage controller behind \<^verbatim>\<open>self._helpers\<close>, and a log of what the
  method did) to a result and the world after it. The methods of \<^verbatim>\<open>self._helpers\<close>
  and of the common base class live in \<^verbatim>\<open>storwize_svc_common\<close>; here they are
  parameters, the fields of the record \<open>helpers\<close>, so every theorem holds for whatever
  they do. The lock that \<^verbatim>\<open>utils.synchronized('storwize-host', external=True)\<close> puts around
  \<^verbatim>\<open>initialize_connection\<close> and \<^verbatim>\<open>terminate_connection\<close> is a field of the world.
\<close>

subsection \<open>Values, errors and the log\<close>

datatype pyval =
    PBool bool
  | PInt int
  | PStr string
  | PDict "(string \<times> pyval) list"

text \<open>The exceptions the driver raises itself, the two lookups that raise implicitly
  (\<^verbatim>\<open>d[k]\<close> on a missing key, \<^verbatim>\<open>xs[0]\<close> on an empty list), and whatever else a
  helper may raise. The last value is not an exception: \<open>Blocked\<close> is the outcome of a
  call that does not return, because it waits for a lock that is not released; no
  handler sees it.\<close>

datatype error =
    VolumeDriverException string
  | VolumeBackendAPIException string
  | InvalidConnectorException string
  | KeyError string
  | IndexError
  | HelperException string
  | Blocked

type_synonym connector = "(string \<times> pyval) list"

type_synonym vdisk_attributes = "(string \<times> string) list"

record volume =
  vol_id :: string
  vol_name :: string
  volume_type_id :: "string option"

text \<open>One entry of \<^verbatim>\<open>self._state['storage_nodes']\<close>, as \<^verbatim>\<open>get_node_info\<close> builds it:
  the keys \<^verbatim>\<open>id\<close>, \<^verbatim>\<open>name\<close>, \<^verbatim>\<open>IO_group\<close>, \<^verbatim>\<open>iscsi_name\<close>, \<^verbatim>\<open>ipv4\<close>,
  \<^verbatim>\<open>ipv6\<close> and \<^verbatim>\<open>enabled_protocols\<close> are the ones this driver reads.\<close>

record node =
  node_id :: string
  node_name :: string
  IO_group :: string
  iscsi_name :: string
  ipv4 :: "string list"
  ipv6 :: "string list"
  enabled_protocols :: "string list"

text \<open>The result of \<^verbatim>\<open>_get_vdisk_params\<close>; the driver reads its key \<^verbatim>\<open>protocol\<close> only.\<close>

record vdisk_params =
  protocol :: string

text \<open>The driver object: \<^verbatim>\<open>self.protocol\<close>, the two entries of \<^verbatim>\<open>self._state\<close> the
  iSCSI driver touches, and the two configuration flags it reads.\<close>

record driver =
  driver_protocol :: string
  storage_nodes :: "(string \<times> node) list"
  state_enabled_protocols :: "string set"
  storwize_svc_iscsi_chap_enabled :: bool
  storwize_svc_multihostmap_enabled :: bool

datatype level = DEBUG | INFO | WARNING | ERROR

text \<open>What a method does that its caller can observe besides the result: the log
  records it writes, and the helper calls it makes, each with its arguments and with
  what the helper returned or raised.\<close>

datatype event =
    Log level string "pyval list"
  | Call_common_do_setup "error + driver"
  | Call_get_node_info "error + (string \<times> node) list"
  | Call_add_iscsi_ip_addrs "(string \<times> node) list" "error + (string \<times> node) list"
  | Call_get_vdisk_params "string option" "error + vdisk_params"
  | Call_get_host_from_connector connector "error + string option"
  | Call_create_host connector "error + string"
  | Call_get_chap_secret_for_host string "error + string option"
  | Call_add_chap_secret_to_host string "error + string"
  | Call_get_vdisk_attributes string "error + vdisk_attributes option"
  | Call_map_vol_to_host string string bool "error + int"
  | Call_unmap_vol_from_host string "string option" "error + string option"
  | Call_check_host_mapped_vols string "error + string list"
  | Call_delete_host string "error + unit"

text \<open>The world a method runs in: the storage controller, the log of what the methods
  did, and whether the lock named \<^verbatim>\<open>storwize-host\<close> is held.\<close>

record 'b world =
  backend :: 'b
  trace :: "event list"
  lock_held :: bool

type_synonym ('a, 'b) action = "'b world \<Rightarrow> (error + 'a) \<times> 'b world"

type_synonym ('a, 'b) helper = "'b \<Rightarrow> (error + 'a) \<times> 'b"

text \<open>The helper interface of \<^verbatim>\<open>storwize_svc_common\<close>. Each helper may raise and may
  change the controller (the state \<open>'b\<close>).\<close>

record 'b helpers =
  common_do_setup :: "driver \<Rightarrow> (driver, 'b) helper"
  get_node_info :: "((string \<times> node) list, 'b) helper"
  add_iscsi_ip_addrs :: "(string \<times> node) list \<Rightarrow> ((string \<times> node) list, 'b) helper"
  get_vdisk_params :: "string option \<Rightarrow> (vdisk_params, 'b) helper"
  get_host_from_connector :: "connector \<Rightarrow> (string option, 'b) helper"
  create_host :: "connector \<Rightarrow> (string, 'b) helper"
  get_chap_secret_for_host :: "string \<Rightarrow> (string option, 'b) helper"
  add_chap_secret_to_host :: "string \<Rightarrow> (string, 'b) helper"
  get_vdisk_attributes :: "string \<Rightarrow> (vdisk_attributes option, 'b) helper"
  map_vol_to_host :: "string \<Rightarrow> string \<Rightarrow> bool \<Rightarrow> (int, 'b) helper"
  unmap_vol_from_host :: "string \<Rightarrow> string option \<Rightarrow> (string option, 'b) helper"
  check_host_mapped_vols :: "string \<Rightarrow> (string list, 'b) helper"
  delete_host :: "string \<Rightarrow> (unit, 'b) helper"

subsection \<open>Sequencing\<close>

definition ret :: "'a \<Rightarrow> ('a, 'b) action" where
  "ret x w = (Inr x, w)"

definition raise :: "error \<Rightarrow> ('a, 'b) action" where
  "raise e w = (Inl e, w)"

definition and_then :: "('a, 'b) action \<Rightarrow> ('a \<Rightarrow> ('c, 'b) action) \<Rightarrow> ('c, 'b) action" where
  "and_then m f w = (case m w of (Inl e, w') \<Rightarrow> (Inl e, w') | (Inr x, w') \<Rightarrow> f x w')"

definition LOG :: "level \<Rightarrow> string \<Rightarrow> pyval list \<Rightarrow> (unit, 'b) action" where
  "LOG l msg args w = (Inr (), w\<lparr>trace := trace w @ [Log l msg args]\<rparr>)"

text \<open>A helper call: the helper runs on the controller, and the call is recorded
  with its outcome.\<close>

definition invoke :: "(error + 'a \<Rightarrow> event) \<Rightarrow> ('a, 'b) helper \<Rightarrow> ('a, 'b) action" where
  "invoke c f w =
     (case f (backend w) of
        (r, b') \<Rightarrow> (r, w\<lparr>backend := b', trace := trace w @ [c r]\<rparr>))"

text \<open>\<^verbatim>\<open>try: body except Exception: with excutils.save_and_reraise_exception(): handler\<close>.
  The context manager of \<^verbatim>\<open>oslo_utils\<close> re-raises the saved exception when the handler
  ends normally; when the handler raises, it logs that the original exception is
  dropped and the handler's exception propagates. A body or a handler that does not
  return is where the statement ends.\<close>

definition save_and_reraise_exception ::
  "('a, 'b) action \<Rightarrow> (unit, 'b) action \<Rightarrow> ('a, 'b) action" where
  "save_and_reraise_exception body handler w =
     (case body w of
        (Inr x, w1) \<Rightarrow> (Inr x, w1)
      | (Inl e, w1) \<Rightarrow>
          if e = Blocked then (Inl Blocked, w1)
          else (case handler w1 of
                  (Inr _, w2) \<Rightarrow> (Inl e, w2)
                | (Inl e', w2) \<Rightarrow>
                    if e' = Blocked then (Inl Blocked, w2)
                    else (Inl e', w2\<lparr>trace := trace w2 @
                            [Log ERROR ''Original exception being dropped: %s'' []]\<rparr>)))"

text \<open>Modelled from the spec: the decorator \<^verbatim>\<open>utils.synchronized('storwize-host', external=True)\<close>
  of \<^verbatim>\<open>cinder.utils\<close> (section 5): a named mutual-exclusion lock, acquired before the
  method body runs and released on every exit path; a call that finds the lock held
  waits for its release. The embedding is sequential, so a lock that is held when a
  method is called is held by the caller, which waits for the call: the call does not
  return.\<close>

definition synchronized :: "('a, 'b) action \<Rightarrow> ('a, 'b) action" where
  "synchronized body w =
     (if lock_held w then (Inl Blocked, w)
      else (case body (w\<lparr>lock_held := True\<rparr>) of
              (r, w') \<Rightarrow> if r = Inl Blocked then (r, w') else (r, w'\<lparr>lock_held := False\<rparr>)))"

text \<open>What a run from the world \<open>w\<close> to the world \<open>w'\<close> appended to the log.\<close>

definition new_events :: "'b world \<Rightarrow> 'b world \<Rightarrow> event list" where
  "new_events w w' = drop (length (trace w)) (trace w')"

definition py_in :: "string \<Rightarrow> (string \<times> 'v) list \<Rightarrow> bool" where
  "py_in k d = (map_of d k \<noteq> None)"

text \<open>Truth value of a string-or-\<^verbatim>\<open>None\<close>: \<^verbatim>\<open>None\<close> and the empty string are false.\<close>

fun truthy :: "string option \<Rightarrow> bool" where
  "truthy None = False"
| "truthy (Some s) = (s \<noteq> [])"

definition volume_dict :: "volume \<Rightarrow> pyval" where
  "volume_dict v =
     PDict ([(''id'', PStr (vol_id v)), (''name'', PStr (vol_name v))] @
            (case volume_type_id v of
               None \<Rightarrow> []
             | Some t \<Rightarrow> [(''volume_type_id'', PStr t)]))"

subsection \<open>\<^verbatim>\<open>do_setup\<close>\<close>

text \<open>The test of lines 108--109: the node has an IPv4 or an IPv6 address, and an
  iSCSI name.\<close>

definition supports_iscsi :: "node \<Rightarrow> bool" where
  "supports_iscsi n =
     ((length (ipv4 n) \<noteq> 0 \<or> length (ipv6 n) \<noteq> 0) \<and> length (iscsi_name n) \<noteq> 0)"

text \<open>The first loop of \<^verbatim>\<open>do_setup\<close> (lines 106--116) over
  \<^verbatim>\<open>self._state['storage_nodes'].items()\<close>. It appends to the node's own list of
  enabled protocols, so the accumulator carries the nodes as the loop leaves them,
  besides \<^verbatim>\<open>self._state['enabled_protocols']\<close>, \<^verbatim>\<open>to_delete\<close> and the log records.\<close>

record setup_loop =
  visited :: "(string \<times> node) list"
  enabled :: "string set"
  to_delete :: "string list"
  logged :: "event list"

fun check_connection_modes :: "(string \<times> node) list \<Rightarrow> setup_loop \<Rightarrow> setup_loop" where
  "check_connection_modes [] acc = acc"
| "check_connection_modes ((k, n) # items) acc =
     (let n' = (if supports_iscsi n
                then n\<lparr>enabled_protocols := enabled_protocols n @ [''iSCSI'']\<rparr>
                else n);
          acc1 = acc\<lparr>visited := visited acc @ [(k, n')],
                     enabled := (if supports_iscsi n then insert ''iSCSI'' (enabled acc)
                                 else enabled acc)\<rparr>;
          acc2 = (if length (enabled_protocols n') = 0
                  then acc1\<lparr>to_delete := to_delete acc1 @ [k],
                            logged := logged acc1 @
                              [Log INFO
                                 ''%(node)s will be removed since it is not supported by the iSCSI driver.''
                                 [PStr (node_name n')]]\<rparr>
                  else acc1)
      in check_connection_modes items acc2)"

text \<open>\<^verbatim>\<open>del d[k]\<close>. The keys deleted are keys of the dictionary, each once, so the
  statement never raises here.\<close>

definition dict_del :: "(string \<times> 'v) list \<Rightarrow> string \<Rightarrow> (string \<times> 'v) list" where
  "dict_del d k = filter (\<lambda>(k', _). k' \<noteq> k) d"

text \<open>Lines 104--118: both loops, on the nodes the helpers delivered.\<close>

definition prune_storage_nodes :: "(string \<times> node) list \<Rightarrow> string set \<Rightarrow> setup_loop" where
  "prune_storage_nodes nodes protos =
     (let acc = check_connection_modes nodes
                  \<lparr>visited = [], enabled = protos, to_delete = [], logged = []\<rparr>
      in acc\<lparr>visited := foldl dict_del (visited acc) (to_delete acc)\<rparr>)"

definition do_setup :: "'b helpers \<Rightarrow> driver \<Rightarrow> (driver, 'b) action" where
  "do_setup h self =
     and_then (invoke Call_common_do_setup
                 (common_do_setup h (self\<lparr>driver_protocol := ''iSCSI''\<rparr>))) (\<lambda>self1.
     and_then (invoke Call_get_node_info (get_node_info h)) (\<lambda>nodes0.
     and_then (invoke (Call_add_iscsi_ip_addrs nodes0) (add_iscsi_ip_addrs h nodes0)) (\<lambda>nodes.
       (let acc = prune_storage_nodes nodes (state_enabled_protocols self1);
            self2 = self1\<lparr>storage_nodes := visited acc,
                          state_enabled_protocols := enabled acc\<rparr>
        in (\<lambda>w.
          (let w1 = w\<lparr>trace := trace w @ logged acc\<rparr>
           in if length (storage_nodes self2) = 0
              then and_then (LOG ERROR ''do_setup: No configured nodes.'' [])
                     (\<lambda>_. raise (VolumeDriverException ''do_setup: No configured nodes.'')) w1
              else and_then (LOG DEBUG ''leave: do_setup'' []) (\<lambda>_. ret self2) w1))))))"

subsection \<open>\<^verbatim>\<open>validate_connector\<close>\<close>

definition validate_connector :: "connector \<Rightarrow> (unit, 'b) action" where
  "validate_connector connector =
     (if \<not> py_in ''initiator'' connector
      then and_then (LOG ERROR ''The connector does not contain the required information.'' [])
             (\<lambda>_. raise (InvalidConnectorException ''initiator''))
      else ret ())"

subsection \<open>\<^verbatim>\<open>terminate_connection\<close>\<close>

text \<open>The body of the method, lines 260--291.\<close>

definition terminate_connection_body ::
  "'b helpers \<Rightarrow> volume \<Rightarrow> connector \<Rightarrow> ((string \<times> pyval) list, 'b) action" where
  "terminate_connection_body h volume connector =
     and_then (LOG DEBUG ''enter: terminate_connection: volume %(vol)s with connector %(conn)s''
                 [PStr (vol_id volume), PDict connector]) (\<lambda>_.
     and_then
       (if py_in ''host'' connector
        then and_then (invoke (Call_get_host_from_connector connector)
                         (get_host_from_connector h connector)) (\<lambda>host_name.
               case host_name of
                 None \<Rightarrow>
                   and_then (LOG ERROR
                       ''terminate_connection: Failed to get host name from connector.'' [])
                     (\<lambda>_. raise (VolumeDriverException
                       ''terminate_connection: Failed to get host name from connector.''))
               | Some hn \<Rightarrow>
                   ret ([(''driver_volume_type'', PStr ''iscsi''), (''data'', PDict [])],
                        Some hn))
        else ret ([], None)) (\<lambda>(info, host_name).
     and_then (invoke (Call_unmap_vol_from_host (vol_name volume) host_name)
                 (unmap_vol_from_host h (vol_name volume) host_name)) (\<lambda>host_name.
     and_then
       (case host_name of
          None \<Rightarrow> ret ()
        | Some hn \<Rightarrow>
            if hn = [] then ret ()
            else and_then (invoke (Call_check_host_mapped_vols hn)
                             (check_host_mapped_vols h hn)) (\<lambda>resp.
                   if length resp = 0
                   then invoke (Call_delete_host hn) (delete_host h hn)
                   else ret ())) (\<lambda>_.
     and_then (LOG DEBUG ''leave: terminate_connection: volume %(vol)s with connector %(conn)s''
                 [PStr (vol_id volume), PDict connector]) (\<lambda>_.
     ret info)))))"

text \<open>The method as line 249 decorates it.\<close>

definition terminate_connection ::
  "'b helpers \<Rightarrow> volume \<Rightarrow> connector \<Rightarrow> ((string \<times> pyval) list, 'b) action" where
  "terminate_connection h volume connector =
     synchronized (terminate_connection_body h volume connector)"

subsection \<open>\<^verbatim>\<open>initialize_connection\<close>\<close>

text \<open>The loop of lines 190--198 over \<^verbatim>\<open>self._state['storage_nodes'].values()\<close>; the
  accumulator is \<^verbatim>\<open>(preferred_node_entry, io_group_nodes)\<close>.\<close>

fun scan_storage_nodes ::
  "string \<Rightarrow> string \<Rightarrow> string \<Rightarrow> node list \<Rightarrow> node option \<times> node list
     \<Rightarrow> node option \<times> node list" where
  "scan_storage_nodes proto preferred_node iogrp [] acc = acc"
| "scan_storage_nodes proto preferred_node iogrp (n # nodes) (preferred_node_entry, io_group_nodes) =
     (if proto \<notin> set (enabled_protocols n)
      then scan_storage_nodes proto preferred_node iogrp nodes
             (preferred_node_entry, io_group_nodes)
      else scan_storage_nodes proto preferred_node iogrp nodes
             (if node_id n = preferred_node then Some n else preferred_node_entry,
              if IO_group n = iogrp then io_group_nodes @ [n] else io_group_nodes))"

definition no_node_found :: "string \<Rightarrow> string \<Rightarrow> string" where
  "no_node_found gid vol =
     ''initialize_connection: No node found in I/O group '' @ gid @
     '' for volume '' @ vol @ ''.''"

text \<open>Lines 189--211: the node that serves the volume.\<close>

definition select_serving_node ::
  "string \<Rightarrow> string \<Rightarrow> string \<Rightarrow> string \<Rightarrow> node list \<Rightarrow> (node, 'b) action" where
  "select_serving_node proto preferred_node iogrp volume_name nodes =
     (case scan_storage_nodes proto preferred_node iogrp nodes (None, []) of
        (preferred_node_entry, io_group_nodes) \<Rightarrow>
          (case io_group_nodes of
             [] \<Rightarrow>
               and_then (LOG ERROR (no_node_found iogrp volume_name) [])
                 (\<lambda>_. raise (VolumeBackendAPIException (no_node_found iogrp volume_name)))
           | first # _ \<Rightarrow>
               (case preferred_node_entry of
                  Some n \<Rightarrow> ret n
                | None \<Rightarrow>
                    and_then (LOG WARNING
                        ''initialize_connection: Did not find a preferred node for volume %s.''
                        [PStr volume_name])
                      (\<lambda>_. ret first))))"

text \<open>Lines 218--221: \<^verbatim>\<open>ipv4[0]\<close> when the node has an IPv4 address, else
  \<^verbatim>\<open>ipv6[0]\<close>, which raises on an empty list.\<close>

definition target_address :: "node \<Rightarrow> error + string" where
  "target_address n =
     (case ipv4 n of
        a # _ \<Rightarrow> Inr a
      | [] \<Rightarrow> (case ipv6 n of a # _ \<Rightarrow> Inr a | [] \<Rightarrow> Inl IndexError))"

text \<open>Lines 224--231: the CHAP entries of the properties.\<close>

definition chap_properties :: "connector \<Rightarrow> string option \<Rightarrow> error + (string \<times> pyval) list" where
  "chap_properties connector chap_secret =
     (case chap_secret of
        None \<Rightarrow> Inr []
      | Some secret \<Rightarrow>
          if secret = [] then Inr []
          else (case map_of connector ''initiator'' of
                  None \<Rightarrow> Inl (KeyError ''initiator'')
                | Some initiator \<Rightarrow>
                    Inr [(''auth_method'', PStr ''CHAP''),
                         (''auth_username'', initiator),
                         (''auth_password'', PStr secret),
                         (''discovery_auth_method'', PStr ''CHAP''),
                         (''discovery_auth_username'', initiator),
                         (''discovery_auth_password'', PStr secret)]))"

text \<open>The body of the second \<^verbatim>\<open>try\<close> (lines 189--231).\<close>

definition collect_properties ::
  "driver \<Rightarrow> vdisk_params \<Rightarrow> volume \<Rightarrow> connector \<Rightarrow> string option \<Rightarrow> int \<Rightarrow> string \<Rightarrow> string
     \<Rightarrow> ((string \<times> pyval) list, 'b) action" where
  "collect_properties self vol_opts volume connector chap_secret lun_id preferred_node iogrp =
     and_then (select_serving_node (protocol vol_opts) preferred_node iogrp (vol_name volume)
                 (map snd (storage_nodes self))) (\<lambda>preferred_node_entry.
       case target_address preferred_node_entry of
         Inl e \<Rightarrow> raise e
       | Inr ipaddr \<Rightarrow>
           (case chap_properties connector chap_secret of
              Inl e \<Rightarrow> raise e
            | Inr auth \<Rightarrow>
                ret ([(''target_discovered'', PBool False),
                      (''target_lun'', PInt lun_id),
                      (''volume_id'', PStr (vol_id volume)),
                      (''target_portal'', PStr (ipaddr @ '':'' @ ''3260'')),
                      (''target_iqn'', PStr (iscsi_name preferred_node_entry))] @ auth)))"

text \<open>Lines 178--186: the two columns of \<^verbatim>\<open>lsvdisk\<close> the driver needs.\<close>

definition volume_placement :: "string \<Rightarrow> vdisk_attributes \<Rightarrow> (string \<times> string, 'b) action" where
  "volume_placement volume_name volume_attributes =
     (case map_of volume_attributes ''preferred_node_id'' of
        None \<Rightarrow>
          and_then (LOG ERROR ''Did not find expected column name in lsvdisk: %s.''
                      [PStr ''preferred_node_id''])
            (\<lambda>_. raise (VolumeBackendAPIException
               (''initialize_connection: Missing volume attribute for volume '' @
                volume_name @ ''.'')))
      | Some preferred_node \<Rightarrow>
          (case map_of volume_attributes ''IO_group_id'' of
             None \<Rightarrow>
               and_then (LOG ERROR ''Did not find expected column name in lsvdisk: %s.''
                           [PStr ''IO_group_id''])
                 (\<lambda>_. raise (VolumeBackendAPIException
                    (''initialize_connection: Missing volume attribute for volume '' @
                     volume_name @ ''.'')))
           | Some iogrp \<Rightarrow> ret (preferred_node, iogrp)))"

text \<open>The body of the method, lines 148--247. The rollback of line 235 calls
  \<^verbatim>\<open>self.terminate_connection\<close>, the decorated method.\<close>

definition initialize_connection_body ::
  "'b helpers \<Rightarrow> driver \<Rightarrow> volume \<Rightarrow> connector \<Rightarrow> ((string \<times> pyval) list, 'b) action" where
  "initialize_connection_body h self volume connector =
     and_then (LOG DEBUG ''enter: initialize_connection: volume %(vol)s with connector %(conn)s''
                 [PStr (vol_id volume), PDict connector]) (\<lambda>_.
     and_then (invoke (Call_get_vdisk_params (volume_type_id volume))
                 (get_vdisk_params h (volume_type_id volume))) (\<lambda>vol_opts.
     and_then (invoke (Call_get_host_from_connector connector)
                 (get_host_from_connector h connector)) (\<lambda>found.
     and_then (case found of
                 None \<Rightarrow> invoke (Call_create_host connector) (create_host h connector)
               | Some hn \<Rightarrow> ret hn) (\<lambda>host_name.
     and_then (invoke (Call_get_chap_secret_for_host host_name)
                 (get_chap_secret_for_host h host_name)) (\<lambda>existing.
     and_then
       (if storwize_svc_iscsi_chap_enabled self \<and> existing = None
        then and_then (invoke (Call_add_chap_secret_to_host host_name)
                         (add_chap_secret_to_host h host_name)) (\<lambda>s. ret (Some s))
        else if \<not> storwize_svc_iscsi_chap_enabled self \<and> truthy existing
        then and_then (LOG WARNING ''CHAP secret exists for host but CHAP is disabled.'' [])
               (\<lambda>_. ret existing)
        else ret existing) (\<lambda>chap_secret.
     and_then (invoke (Call_get_vdisk_attributes (vol_name volume))
                 (get_vdisk_attributes h (vol_name volume))) (\<lambda>volume_attributes.
       case volume_attributes of
         None \<Rightarrow>
           and_then (LOG ERROR (''initialize_connection: Failed to get attributes for volume ''
                                @ vol_name volume @ ''.'') [])
             (\<lambda>_. raise (VolumeDriverException
                (''initialize_connection: Failed to get attributes for volume ''
                 @ vol_name volume @ ''.'')))
       | Some attrs \<Rightarrow>
     and_then (invoke (Call_map_vol_to_host (vol_name volume) host_name
                         (storwize_svc_multihostmap_enabled self))
                 (map_vol_to_host h (vol_name volume) host_name
                    (storwize_svc_multihostmap_enabled self))) (\<lambda>lun_id.
     and_then (volume_placement (vol_name volume) attrs) (\<lambda>(preferred_node, iogrp).
     and_then
       (save_and_reraise_exception
          (collect_properties self vol_opts volume connector chap_secret lun_id
             preferred_node iogrp)
          (and_then (terminate_connection h volume connector) (\<lambda>_.
             LOG ERROR
               (''initialize_connection: Failed to collect return properties for volume %(vol)s and connector %(conn)s.''
                @ [CHR 0x0A])
               [volume_dict volume, PDict connector]))) (\<lambda>properties.
     and_then (LOG DEBUG
                 (''leave: initialize_connection:'' @ [CHR 0x0A] @ '' volume: %(vol)s'' @
                  [CHR 0x0A] @ '' connector %(conn)s'' @ [CHR 0x0A] @ '' properties: %(prop)s'')
                 [PStr (vol_id volume), PDict connector, PDict properties]) (\<lambda>_.
     ret [(''driver_volume_type'', PStr ''iscsi''), (''data'', PDict properties)])))))))))))"

text \<open>The method as line 136 decorates it.\<close>

definition initialize_connection ::
  "'b helpers \<Rightarrow> driver \<Rightarrow> volume \<Rightarrow> connector \<Rightarrow> ((string \<times> pyval) list, 'b) action" where
  "initialize_connection h self volume connector =
     synchronized (initialize_connection_body h self volume connector)"

text \<open>Lines 168--247 of \<^verbatim>\<open>initialize_connection\<close> once more, as a function of what the
  lines before them computed (the volume options, the host name and the CHAP secret).
  Lemma \<open>initialize_connection_halves\<close> below shows that the body of
  \<^verbatim>\<open>initialize_connection\<close> is its first half followed by this; the proofs go through
  the method one half at a time.\<close>

definition connect_volume ::
  "'b helpers \<Rightarrow> driver \<Rightarrow> volume \<Rightarrow> connector \<Rightarrow> vdisk_params \<Rightarrow> string \<Rightarrow> string option
     \<Rightarrow> ((string \<times> pyval) list, 'b) action" where
  "connect_volume h self volume connector vol_opts host_name chap_secret =
     and_then (invoke (Call_get_vdisk_attributes (vol_name volume))
                 (get_vdisk_attributes h (vol_name volume))) (\<lambda>volume_attributes.
       case volume_attributes of
         None \<Rightarrow>
           and_then (LOG ERROR (''initialize_connection: Failed to get attributes for volume ''
                                @ vol_name volume @ ''.'') [])
             (\<lambda>_. raise (VolumeDriverException
                (''initialize_connection: Failed to get attributes for volume ''
                 @ vol_name volume @ ''.'')))
       | Some attrs \<Rightarrow>
     and_then (invoke (Call_map_vol_to_host (vol_name volume) host_name
                         (storwize_svc_multihostmap_enabled self))
                 (map_vol_to_host h (vol_name volume) host_name
                    (storwize_svc_multihostmap_enabled self))) (\<lambda>lun_id.
     and_then (volume_placement (vol_name volume) attrs) (\<lambda>(preferred_node, iogrp).
     and_then
       (save_and_reraise_exception
          (collect_properties self vol_opts volume connector chap_secret lun_id
             preferred_node iogrp)
          (and_then (terminate_connection h volume connector) (\<lambda>_.
             LOG ERROR
               (''initialize_connection: Failed to collect return properties for volume %(vol)s and connector %(conn)s.''
                @ [CHR 0x0A])
               [volume_dict volume, PDict connector]))) (\<lambda>properties.
     and_then (LOG DEBUG
                 (''leave: initialize_connection:'' @ [CHR 0x0A] @ '' volume: %(vol)s'' @
                  [CHR 0x0A] @ '' connector %(conn)s'' @ [CHR 0x0A] @ '' properties: %(prop)s'')
                 [PStr (vol_id volume), PDict connector, PDict properties]) (\<lambda>_.
     ret [(''driver_volume_type'', PStr ''iscsi''), (''data'', PDict properties)])))))"

text \<open>The log records and helper calls \<^verbatim>\<open>terminate_connection\<close> can make, and those
  the second half of \<^verbatim>\<open>initialize_connection\<close> can make.\<close>

fun teardown_event :: "event \<Rightarrow> bool" where
  "teardown_event (Log l msg args) = True"
| "teardown_event (Call_get_host_from_connector c r) = True"
| "teardown_event (Call_unmap_vol_from_host v hn r) = True"
| "teardown_event (Call_check_host_mapped_vols hn r) = True"
| "teardown_event (Call_delete_host hn r) = True"
| "teardown_event _ = False"

fun connect_event :: "event \<Rightarrow> bool" where
  "connect_event (Call_get_vdisk_attributes v r) = True"
| "connect_event (Call_map_vol_to_host v hn m r) = True"
| "connect_event e = teardown_event e"

subsection \<open>A storage controller to run the driver against\<close>

text \<open>The driver's theorems hold for every implementation of the helpers. To run the
  driver on concrete inputs, the helper interface is implemented once over a small
  controller: its node inventory, its host objects (name and initiator), the CHAP
  secrets of the hosts, the attributes of its volumes, and the volume-to-host mappings
  with their LUN ids.\<close>

record controller =
  lsnode :: "(string \<times> node) list"
  lshost :: "(string \<times> pyval) list"
  lsiscsiauth :: "(string \<times> string) list"
  lsvdisk :: "(string \<times> vdisk_attributes) list"
  lshostvdiskmap :: "(string \<times> string \<times> int) list"

text \<open>Modelled from the spec: \<^verbatim>\<open>getHostByConnector(connector) -> hostName | none\<close> of
  the helper module \<^verbatim>\<open>storwize_svc_common\<close> (section 4.1): the existing host keyed by
  the connector's initiator.\<close>

definition ctl_get_host_from_connector :: "connector \<Rightarrow> (string option, controller) helper" where
  "ctl_get_host_from_connector connector c =
     (case map_of connector ''initiator'' of
        None \<Rightarrow> (Inr None, c)
      | Some i \<Rightarrow>
          (case filter (\<lambda>(hn, i'). i' = i) (lshost c) of
             [] \<Rightarrow> (Inr None, c)
           | (hn, _) # _ \<Rightarrow> (Inr (Some hn), c)))"

text \<open>Modelled from the spec: \<^verbatim>\<open>createHost(connector) -> hostName\<close> of
  \<^verbatim>\<open>storwize_svc_common\<close> (section 4.1): a new host object, named deterministically
  from the connector; a connector without an initiator fails.\<close>

definition ctl_create_host :: "connector \<Rightarrow> (string, controller) helper" where
  "ctl_create_host connector c =
     (case map_of connector ''initiator'' of
        Some (PStr i) \<Rightarrow>
          (Inr (''host-'' @ i), c\<lparr>lshost := lshost c @ [(''host-'' @ i, PStr i)]\<rparr>)
      | _ \<Rightarrow> (Inl (InvalidConnectorException ''initiator''), c))"

text \<open>Modelled from the spec: \<^verbatim>\<open>getChapSecret(hostName) -> secret | none\<close> of
  \<^verbatim>\<open>storwize_svc_common\<close> (section 6).\<close>

definition ctl_get_chap_secret_for_host :: "string \<Rightarrow> (string option, controller) helper" where
  "ctl_get_chap_secret_for_host host_name c = (Inr (map_of (lsiscsiauth c) host_name), c)"

text \<open>Modelled from the spec: \<^verbatim>\<open>installChapSecret(hostName) -> secret\<close> of
  \<^verbatim>\<open>storwize_svc_common\<close> (section 4.2): a secret is generated, installed on the host
  and returned.\<close>

definition ctl_add_chap_secret_to_host :: "string \<Rightarrow> (string, controller) helper" where
  "ctl_add_chap_secret_to_host host_name c =
     (Inr (''chap-'' @ host_name),
      c\<lparr>lsiscsiauth := lsiscsiauth c @ [(host_name, ''chap-'' @ host_name)]\<rparr>)"

text \<open>Modelled from the spec: \<^verbatim>\<open>getVolumeAttributes(volumeName) -> VolumeAttributes | none\<close>
  of \<^verbatim>\<open>storwize_svc_common\<close> (section 6).\<close>

definition ctl_get_vdisk_attributes :: "string \<Rightarrow> (vdisk_attributes option, controller) helper" where
  "ctl_get_vdisk_attributes volume_name c = (Inr (map_of (lsvdisk c) volume_name), c)"

text \<open>Modelled from the spec: \<^verbatim>\<open>mapVolumeToHost(volumeName, hostName, allowMultiMap) -> lunId\<close>
  of \<^verbatim>\<open>storwize_svc_common\<close> (section 4.3): the mapping is created if absent, the
  same host gets the same LUN id again, and a volume mapped to another host is refused
  unless multi-host mapping is allowed.\<close>

definition ctl_map_vol_to_host :: "string \<Rightarrow> string \<Rightarrow> bool \<Rightarrow> (int, controller) helper" where
  "ctl_map_vol_to_host volume_name host_name multihostmap c =
     (case filter (\<lambda>(v, hn, lun). v = volume_name \<and> hn = host_name) (lshostvdiskmap c) of
        (_, _, lun) # _ \<Rightarrow> (Inr lun, c)
      | [] \<Rightarrow>
          if \<not> multihostmap \<and> filter (\<lambda>(v, hn, lun). v = volume_name) (lshostvdiskmap c) \<noteq> []
          then (Inl (HelperException ''MultiMapNotAllowed''), c)
          else (let lun = int (length (filter (\<lambda>(v, hn, lun). hn = host_name)
                                         (lshostvdiskmap c)))
                in (Inr lun,
                    c\<lparr>lshostvdiskmap := lshostvdiskmap c @ [(volume_name, host_name, lun)]\<rparr>)))"

text \<open>Modelled from the spec: \<^verbatim>\<open>unmapVolumeFromHost(volumeName, hostName | none) -> hostName | none\<close>
  of \<^verbatim>\<open>storwize_svc_common\<close> (section 4.3): a host name that is not supplied is the
  host the volume is mapped to; the mapping is removed and the host affected is
  returned, none if no mapping existed.\<close>

definition ctl_unmap_vol_from_host :: "string \<Rightarrow> string option \<Rightarrow> (string option, controller) helper" where
  "ctl_unmap_vol_from_host volume_name host_name c =
     (case filter (\<lambda>(v, hn, lun). v = volume_name \<and> (host_name = None \<or> host_name = Some hn))
             (lshostvdiskmap c) of
        [] \<Rightarrow> (Inr None, c)
      | (_, hn, _) # _ \<Rightarrow>
          (Inr (Some hn),
           c\<lparr>lshostvdiskmap :=
               filter (\<lambda>(v, hn', lun). \<not> (v = volume_name \<and> hn' = hn)) (lshostvdiskmap c)\<rparr>))"

text \<open>Modelled from the spec: \<^verbatim>\<open>listMappedVolumes(hostName) -> list<id>\<close> of
  \<^verbatim>\<open>storwize_svc_common\<close> (section 6).\<close>

definition ctl_check_host_mapped_vols :: "string \<Rightarrow> (string list, controller) helper" where
  "ctl_check_host_mapped_vols host_name c =
     (Inr (map fst (filter (\<lambda>(v, hn, lun). hn = host_name) (lshostvdiskmap c))), c)"

text \<open>Modelled from the spec: \<^verbatim>\<open>deleteHost(hostName)\<close> of \<^verbatim>\<open>storwize_svc_common\<close>
  (section 6).\<close>

definition ctl_delete_host :: "string \<Rightarrow> (unit, controller) helper" where
  "ctl_delete_host host_name c =
     (Inr (), c\<lparr>lshost := dict_del (lshost c) host_name,
                lsiscsiauth := dict_del (lsiscsiauth c) host_name\<rparr>)"

text \<open>Modelled from the spec: \<^verbatim>\<open>getNodeInventory() -> list<StorageNode>\<close> of
  \<^verbatim>\<open>storwize_svc_common\<close> (section 6), here the two helpers \<^verbatim>\<open>get_node_info\<close> and
  \<^verbatim>\<open>add_iscsi_ip_addrs\<close>, the set-up of the common base class, and the volume-type
  options, which name iSCSI as the protocol.\<close>

definition ctl_helpers :: "controller helpers" where
  "ctl_helpers =
     \<lparr>common_do_setup = (\<lambda>self c. (Inr self, c)),
      get_node_info = (\<lambda>c. (Inr (lsnode c), c)),
      add_iscsi_ip_addrs = (\<lambda>nodes c. (Inr nodes, c)),
      get_vdisk_params = (\<lambda>t c. (Inr \<lparr>protocol = ''iSCSI''\<rparr>, c)),
      get_host_from_connector = ctl_get_host_from_connector,
      create_host = ctl_create_host,
      get_chap_secret_for_host = ctl_get_chap_secret_for_host,
      add_chap_secret_to_host = ctl_add_chap_secret_to_host,
      get_vdisk_attributes = ctl_get_vdisk_attributes,
      map_vol_to_host = ctl_map_vol_to_host,
      unmap_vol_from_host = ctl_unmap_vol_from_host,
      check_host_mapped_vols = ctl_check_host_mapped_vols,
      delete_host = ctl_delete_host\<rparr>"

subsection \<open>Concrete inputs\<close>

definition node1 :: node where
  "node1 = \<lparr>node_id = ''1'', node_name = ''node1'', IO_group = ''0'',
            iscsi_name = ''iqn.1986-03.com.ibm:2145.cluster.node1'',
            ipv4 = [''10.0.0.5''], ipv6 = [], enabled_protocols = []\<rparr>"

definition node2 :: node where
  "node2 = \<lparr>node_id = ''2'', node_name = ''node2'', IO_group = ''0'',
            iscsi_name = ''iqn.1986-03.com.ibm:2145.cluster.node2'',
            ipv4 = [], ipv6 = [''fd00::6''], enabled_protocols = []\<rparr>"

text \<open>A node that is only partially configured: no address.\<close>

definition node3 :: node where
  "node3 = \<lparr>node_id = ''3'', node_name = ''node3'', IO_group = ''1'',
            iscsi_name = ''iqn.1986-03.com.ibm:2145.cluster.node3'',
            ipv4 = [], ipv6 = [], enabled_protocols = []\<rparr>"

definition iscsi_on :: "node \<Rightarrow> node" where
  "iscsi_on n = n\<lparr>enabled_protocols := [''iSCSI'']\<rparr>"

definition driver0 :: driver where
  "driver0 = \<lparr>driver_protocol = [], storage_nodes = [], state_enabled_protocols = {},
              storwize_svc_iscsi_chap_enabled = True,
              storwize_svc_multihostmap_enabled = True\<rparr>"

text \<open>The driver after set-up on the nodes 1 and 2.\<close>

definition driver1 :: driver where
  "driver1 = driver0\<lparr>driver_protocol := ''iSCSI'',
                      storage_nodes := [(''1'', iscsi_on node1), (''2'', iscsi_on node2)],
                      state_enabled_protocols := {''iSCSI''}\<rparr>"

definition volume1 :: volume where
  "volume1 = \<lparr>vol_id = ''V1'', vol_name = ''volume-V1'', volume_type_id = None\<rparr>"

definition connector1 :: connector where
  "connector1 = [(''initiator'', PStr ''iqn.test''), (''host'', PStr ''compute1'')]"

definition controller0 :: controller where
  "controller0 =
     \<lparr>lsnode = [(''1'', node1), (''2'', node2), (''3'', node3)],
      lshost = [], lsiscsiauth = [],
      lsvdisk = [(''volume-V1'', [(''preferred_node_id'', ''1''), (''IO_group_id'', ''0'')])],
      lshostvdiskmap = []\<rparr>"

definition world0 :: "controller world" where
  "world0 = \<lparr>backend = controller0, trace = [], lock_held = False\<rparr>"

text \<open>A controller whose only node is the partially configured one.\<close>

definition controller_bare :: controller where
  "controller_bare = controller0\<lparr>lsnode := [(''3'', node3)]\<rparr>"

text \<open>The controller after \<^verbatim>\<open>initialize_connection\<close> of the volume for the connector:
  the host object, its CHAP secret and the mapping exist.\<close>

definition controller1 :: controller where
  "controller1 = controller0
     \<lparr>lshost := [(''host-iqn.test'', PStr ''iqn.test'')],
      lsiscsiauth := [(''host-iqn.test'', ''chap-host-iqn.test'')],
      lshostvdiskmap := [(''volume-V1'', ''host-iqn.test'', 0)]\<rparr>"


text \<open>A controller whose \<^verbatim>\<open>lsvdisk\<close> reports the volume without the column
  \<^verbatim>\<open>preferred_node_id\<close>.\<close>

definition controller3 :: controller where
  "controller3 = controller0\<lparr>lsvdisk := [(''volume-V1'', [(''IO_group_id'', ''0'')])]\<rparr>"

text \<open>The driver with CHAP disabled in its configuration.\<close>

definition driver2 :: driver where
  "driver2 = driver1\<lparr>storwize_svc_iscsi_chap_enabled := False\<rparr>"






text \<open>A controller whose volume lies in I/O group 1, the group of the partially
  configured node 3, which set-up removes.\<close>

definition controller6 :: controller where
  "controller6 = controller0
     \<lparr>lsvdisk := [(''volume-V1'', [(''preferred_node_id'', ''3''), (''IO_group_id'', ''1'')])]\<rparr>"

section \<open>Properties\<close>

lemmas action_defs = ret_def raise_def and_then_def LOG_def invoke_def new_events_def


lemmas example_defs =
  ctl_helpers_def ctl_get_host_from_connector_def ctl_create_host_def
  ctl_get_chap_secret_for_host_def ctl_add_chap_secret_to_host_def
  ctl_get_vdisk_attributes_def ctl_map_vol_to_host_def ctl_unmap_vol_from_host_def
  ctl_check_host_mapped_vols_def ctl_delete_host_def
  node1_def node2_def node3_def iscsi_on_def driver0_def driver1_def volume1_def
  connector1_def controller0_def world0_def dict_del_def

subsection \<open>Set-up\<close>

lemmas select_defs = select_serving_node_def no_node_found_def target_address_def
  chap_properties_def collect_properties_def

lemmas terminate_defs = terminate_connection_def terminate_connection_body_def
  synchronized_def py_in_def

lemmas initialize_defs = initialize_connection_def initialize_connection_body_def
  save_and_reraise_exception_def
  volume_placement_def volume_dict_def

lemmas setup_defs =
  do_setup_def prune_storage_nodes_def supports_iscsi_def dict_del_def Let_def

lemma visited_check_connection_modes:
  "visited (check_connection_modes nodes acc) =
     visited acc @ map (\<lambda>(k, n). (k, if supports_iscsi n
        then n\<lparr>enabled_protocols := enabled_protocols n @ [''iSCSI'']\<rparr> else n)) nodes"
  by (induction nodes acc rule: check_connection_modes.induct) (simp_all add: Let_def)

lemma to_delete_check_connection_modes:
  "set (to_delete (check_connection_modes nodes acc)) =
     set (to_delete acc) \<union>
     {k. \<exists>n. (k, n) \<in> set nodes \<and> \<not> supports_iscsi n \<and> enabled_protocols n = []}"
  by (induction nodes acc rule: check_connection_modes.induct) (auto simp: Let_def)

lemma foldl_dict_del: "foldl dict_del d ks = filter (\<lambda>(k, _). k \<notin> set ks) d"
  by (induction ks arbitrary: d) (auto simp: dict_del_def intro: filter_cong)


lemma visited_prune_storage_nodes:
  "visited (prune_storage_nodes nodes protos) =
     filter (\<lambda>(k, _). k \<notin> {k. \<exists>n. (k, n) \<in> set nodes \<and> \<not> supports_iscsi n \<and>
                                  enabled_protocols n = []})
       (map (\<lambda>(k, n). (k, if supports_iscsi n
          then n\<lparr>enabled_protocols := enabled_protocols n @ [''iSCSI'']\<rparr> else n)) nodes)"
  by (simp add: prune_storage_nodes_def Let_def visited_check_connection_modes
      to_delete_check_connection_modes foldl_dict_del)

lemma visited_prune_storage_nodes_protos:
  "visited (prune_storage_nodes nodes protos) = visited (prune_storage_nodes nodes {})"
  by (simp add: visited_prune_storage_nodes)

lemma logged_check_connection_modes:
  "e \<in> set (logged (check_connection_modes nodes acc)) \<Longrightarrow>
     e \<in> set (logged acc) \<or> (\<exists>l msg args. e = Log l msg args)"
  by (induction nodes acc rule: check_connection_modes.induct)
     (auto simp: Let_def split: if_splits)

lemma logged_prune_storage_nodes:
  "e \<in> set (logged (prune_storage_nodes nodes protos)) \<Longrightarrow> \<exists>l msg args. e = Log l msg args"
  using logged_check_connection_modes [of e nodes
      "\<lparr>visited = [], enabled = protos, to_delete = [], logged = []\<rparr>"]
  by (simp add: prune_storage_nodes_def Let_def)

lemma do_setup_result:
  assumes "do_setup h self w = (r, w')"
    and "Call_add_iscsi_ip_addrs nodes0 (Inr nodes) \<in> set (new_events w w')"
  shows "case r of
            Inr self' \<Rightarrow> storage_nodes self' = visited (prune_storage_nodes nodes {}) \<and>
                         storage_nodes self' \<noteq> []
          | Inl e \<Rightarrow> visited (prune_storage_nodes nodes {}) = [] \<longrightarrow>
                       e = VolumeDriverException ''do_setup: No configured nodes.''"
  using assms
  by (auto simp: do_setup_def action_defs Let_def
      visited_prune_storage_nodes_protos [of _ "state_enabled_protocols _"]
      split: sum.splits prod.splits if_splits dest: logged_prune_storage_nodes)





text \<open>C10. A \<^verbatim>\<open>do_setup\<close> that returns leaves a non-empty set of storage nodes; and
  when the pruning of the nodes the helpers delivered keeps none of them, \<^verbatim>\<open>do_setup\<close>
  raises \<^verbatim>\<open>VolumeDriverException\<close> (no configured nodes).\<close>

theorem do_setup_needs_a_node:
  assumes run: "do_setup h self w = (r, w')"
  shows "(\<forall>self'. r = Inr self' \<longrightarrow> storage_nodes self' \<noteq> []) \<and>
         (\<forall>nodes0 nodes protos.
            Call_add_iscsi_ip_addrs nodes0 (Inr nodes) \<in> set (new_events w w') \<and>
            visited (prune_storage_nodes nodes protos) = [] \<longrightarrow>
            r = Inl (VolumeDriverException ''do_setup: No configured nodes.''))"
proof (intro conjI allI impI)
  fix self' assume "r = Inr self'"
  with run show "storage_nodes self' \<noteq> []"
    by (auto simp: do_setup_def action_defs Let_def split: sum.splits prod.splits if_splits)
next
  fix nodes0 nodes protos
  assume "Call_add_iscsi_ip_addrs nodes0 (Inr nodes) \<in> set (new_events w w') \<and>
            visited (prune_storage_nodes nodes protos) = []"
  then have delivered: "Call_add_iscsi_ip_addrs nodes0 (Inr nodes) \<in> set (new_events w w')"
    and none: "visited (prune_storage_nodes nodes {}) = []"
    using visited_prune_storage_nodes_protos [of nodes protos] by simp_all
  from do_setup_result [OF run delivered] none
  show "r = Inl (VolumeDriverException ''do_setup: No configured nodes.'')"
    by (cases r) simp_all
qed

theorem do_setup_needs_a_node_witness:
  "fst (do_setup ctl_helpers driver0 world0) = Inr driver1 \<and>
   storage_nodes driver1 \<noteq> [] \<and>
   Call_add_iscsi_ip_addrs [(''3'', node3)] (Inr [(''3'', node3)])
     \<in> set (new_events (world0\<lparr>backend := controller_bare\<rparr>)
          (snd (do_setup ctl_helpers driver0 (world0\<lparr>backend := controller_bare\<rparr>)))) \<and>
   visited (prune_storage_nodes [(''3'', node3)] {}) = [] \<and>
   fst (do_setup ctl_helpers driver0 (world0\<lparr>backend := controller_bare\<rparr>)) =
     Inl (VolumeDriverException ''do_setup: No configured nodes.'')"
proof -
  have res: "fst (do_setup ctl_helpers driver0 world0) = Inr driver1"
    by (simp add: setup_defs action_defs example_defs)
  have delivered: "Call_add_iscsi_ip_addrs [(''3'', node3)] (Inr [(''3'', node3)])
     \<in> set (new_events (world0\<lparr>backend := controller_bare\<rparr>)
          (snd (do_setup ctl_helpers driver0 (world0\<lparr>backend := controller_bare\<rparr>))))"
    by (simp add: setup_defs action_defs example_defs controller_bare_def)
  have none: "visited (prune_storage_nodes [(''3'', node3)] {}) = []"
    by (simp add: setup_defs example_defs)
  from do_setup_needs_a_node [where h = ctl_helpers and self = driver0 and w = world0,
      OF surjective_pairing] res
  have some: "storage_nodes driver1 \<noteq> []"
    by blast
  from do_setup_needs_a_node [where h = ctl_helpers and self = driver0
      and w = "world0\<lparr>backend := controller_bare\<rparr>", OF surjective_pairing]
    delivered none
  have "fst (do_setup ctl_helpers driver0 (world0\<lparr>backend := controller_bare\<rparr>)) =
     Inl (VolumeDriverException ''do_setup: No configured nodes.'')"
    by blast
  with res some delivered none show ?thesis by simp
qed

subsection \<open>\<^verbatim>\<open>validate_connector\<close>\<close>

text \<open>C9. \<^verbatim>\<open>validate_connector\<close> succeeds on a connector that has the key
  \<^verbatim>\<open>initiator\<close> and raises \<^verbatim>\<open>InvalidConnectorException(missing='initiator')\<close>, the
  spec's MissingConnectorField, on a connector that has not.\<close>

theorem validate_connector_initiator:
  "fst (validate_connector connector w) =
     (if ''initiator'' \<in> fst ` set connector then Inr ()
      else Inl (InvalidConnectorException ''initiator''))"
  by (simp add: validate_connector_def py_in_def action_defs map_of_eq_None_iff)

theorem validate_connector_initiator_witness:
  "fst (validate_connector connector1 world0) = Inr () \<and>
   fst (validate_connector [(''host'', PStr ''compute1'')] world0) =
     Inl (InvalidConnectorException ''initiator'')"
  using validate_connector_initiator [of connector1 world0]
    validate_connector_initiator [of "[(''host'', PStr ''compute1'')]" world0]
  by (simp add: connector1_def)


subsection \<open>Node selection\<close>

lemma scan_storage_nodes_eq':
  "scan_storage_nodes proto pref iogrp nodes (entry, grp) =
     (case filter (\<lambda>n. proto \<in> set (enabled_protocols n) \<and> node_id n = pref) nodes of
        [] \<Rightarrow> entry
      | m # ms \<Rightarrow> Some (last (m # ms)),
      grp @ filter (\<lambda>n. proto \<in> set (enabled_protocols n) \<and> IO_group n = iogrp) nodes)"
proof (induction nodes arbitrary: entry grp)
  case Nil
  show ?case by simp
next
  case (Cons n nodes)
  show ?case
    by (simp add: Cons.IH split: list.splits)
qed

lemma scan_storage_nodes_eq:
  "scan_storage_nodes proto pref iogrp nodes (None, []) =
     (case filter (\<lambda>n. proto \<in> set (enabled_protocols n) \<and> node_id n = pref) nodes of
        [] \<Rightarrow> None
      | m # ms \<Rightarrow> Some (last (m # ms)),
      filter (\<lambda>n. proto \<in> set (enabled_protocols n) \<and> IO_group n = iogrp) nodes)"
  by (simp add: scan_storage_nodes_eq')


text \<open>C6. When no node with the protocol enabled has the volume's preferred node id, and
  the I/O group has at least one such node, node selection returns the first node of the
  I/O group, in the order of the node collection, and logs a warning.\<close>

theorem preferred_node_fallback:
  assumes absent: "\<forall>n \<in> set nodes. proto \<in> set (enabled_protocols n) \<longrightarrow> node_id n \<noteq> preferred_node"
    and candidates: "filter (\<lambda>n. proto \<in> set (enabled_protocols n) \<and> IO_group n = iogrp) nodes
                       = first # others"
  shows "select_serving_node proto preferred_node iogrp volume_name nodes w =
           (Inr first,
            w\<lparr>trace := trace w @
               [Log WARNING ''initialize_connection: Did not find a preferred node for volume %s.''
                  [PStr volume_name]]\<rparr>)"
proof -
  from absent
  have "filter (\<lambda>n. proto \<in> set (enabled_protocols n) \<and> node_id n = preferred_node) nodes = []"
    by (auto simp: filter_empty_conv)
  with candidates show ?thesis
    by (simp add: select_serving_node_def scan_storage_nodes_eq action_defs)
qed

theorem preferred_node_fallback_witness:
  "list_all (\<lambda>n. ''iSCSI'' \<in> set (enabled_protocols n) \<longrightarrow> node_id n \<noteq> ''7'')
     [iscsi_on node2, iscsi_on node1] \<and>
   filter (\<lambda>n. ''iSCSI'' \<in> set (enabled_protocols n) \<and> IO_group n = ''0'')
     [iscsi_on node2, iscsi_on node1] = [iscsi_on node2, iscsi_on node1] \<and>
   select_serving_node ''iSCSI'' ''7'' ''0'' ''volume-V1'' [iscsi_on node2, iscsi_on node1] world0 =
     (Inr (iscsi_on node2),
      world0\<lparr>trace := trace world0 @
        [Log WARNING ''initialize_connection: Did not find a preferred node for volume %s.''
           [PStr ''volume-V1'']]\<rparr>)"
proof -
  have absent: "\<forall>n \<in> set [iscsi_on node2, iscsi_on node1].
      ''iSCSI'' \<in> set (enabled_protocols n) \<longrightarrow> node_id n \<noteq> ''7''"
    by (simp add: example_defs)
  have candidates: "filter (\<lambda>n. ''iSCSI'' \<in> set (enabled_protocols n) \<and> IO_group n = ''0'')
     [iscsi_on node2, iscsi_on node1] = [iscsi_on node2, iscsi_on node1]"
    by (simp add: example_defs)
  from preferred_node_fallback [OF absent candidates, of "''volume-V1''" world0] absent candidates
  show ?thesis by (simp add: list_all_iff)
qed











subsection \<open>The lock\<close>

text \<open>A synchronized method that finds the lock held does not return and does nothing;
  one that finds it free runs its body with the lock held, and has the result and the
  log of the body.\<close>

lemma synchronized_run:
  assumes "synchronized body w = (r, w')"
  shows "(lock_held w \<and> r = Inl Blocked \<and> w' = w) \<or>
         (\<not> lock_held w \<and>
          (\<exists>w1. body (w\<lparr>lock_held := True\<rparr>) = (r, w1) \<and> trace w' = trace w1 \<and>
                backend w' = backend w1))"
  using assms
  by (auto simp: synchronized_def split: prod.splits if_splits)

lemma synchronized_events:
  assumes "synchronized body w = (r, w')"
  shows "(r = Inl Blocked \<and> trace w' = trace w) \<or>
         (\<exists>w0 w1. body w0 = (r, w1) \<and> lock_held w0 \<and> trace w0 = trace w \<and>
            trace w1 = trace w' \<and> new_events w0 w1 = new_events w w' \<and>
            backend w0 = backend w)"
proof -
  from synchronized_run [OF assms]
  show ?thesis
  proof
    assume "lock_held w \<and> r = Inl Blocked \<and> w' = w"
    then show ?thesis by simp
  next
    assume "\<not> lock_held w \<and>
          (\<exists>w1. body (w\<lparr>lock_held := True\<rparr>) = (r, w1) \<and> trace w' = trace w1 \<and>
                backend w' = backend w1)"
    then obtain w1 where "body (w\<lparr>lock_held := True\<rparr>) = (r, w1)" and "trace w' = trace w1"
      by blast
    then have "body (w\<lparr>lock_held := True\<rparr>) = (r, w1) \<and> lock_held (w\<lparr>lock_held := True\<rparr>) \<and>
        trace (w\<lparr>lock_held := True\<rparr>) = trace w \<and> trace w1 = trace w' \<and>
        new_events (w\<lparr>lock_held := True\<rparr>) w1 = new_events w w' \<and>
        backend (w\<lparr>lock_held := True\<rparr>) = backend w"
      by (simp add: new_events_def)
    then show ?thesis by blast
  qed
qed

lemma synchronized_held:
  "lock_held w \<Longrightarrow> synchronized body w = (Inl Blocked, w)"
  by (simp add: synchronized_def)

subsection \<open>\<^verbatim>\<open>terminate_connection\<close>\<close>

lemma terminate_connection_body_descriptor:
  assumes "terminate_connection_body h volume connector w = (Inr info, w')"
  shows "info = (if ''host'' \<in> fst ` set connector
                 then [(''driver_volume_type'', PStr ''iscsi''), (''data'', PDict [])]
                 else [])"
  using assms
  by (auto simp: terminate_connection_body_def action_defs py_in_def map_of_eq_None_iff
      split: sum.splits prod.splits option.splits if_splits)

text \<open>C3, as the code has it. A \<^verbatim>\<open>terminate_connection\<close> that returns gives
  \<^verbatim>\<open>{'driver_volume_type': 'iscsi', 'data': {}}\<close> for a connector with the key
  \<^verbatim>\<open>host\<close>, and the empty dictionary \<^verbatim>\<open>{}\<close> for a connector without it.\<close>

theorem terminate_connection_descriptor:
  assumes "terminate_connection h volume connector w = (Inr info, w')"
  shows "info = (if ''host'' \<in> fst ` set connector
                 then [(''driver_volume_type'', PStr ''iscsi''), (''data'', PDict [])]
                 else [])"
proof -
  from assms have "synchronized (terminate_connection_body h volume connector) w = (Inr info, w')"
    by (simp add: terminate_connection_def)
  from synchronized_run [OF this]
  obtain w1 where "terminate_connection_body h volume connector (w\<lparr>lock_held := True\<rparr>) =
      (Inr info, w1)"
    by auto
  then show ?thesis by (rule terminate_connection_body_descriptor)
qed

theorem terminate_connection_descriptor_witness:
  "fst (terminate_connection ctl_helpers volume1 connector1 (world0\<lparr>backend := controller1\<rparr>)) =
     Inr [(''driver_volume_type'', PStr ''iscsi''), (''data'', PDict [])] \<and>
   fst (terminate_connection ctl_helpers volume1 [(''initiator'', PStr ''iqn.test'')]
          (world0\<lparr>backend := controller1\<rparr>)) = Inr []"
proof -
  have ok1: "\<exists>info. fst (terminate_connection ctl_helpers volume1 connector1
      (world0\<lparr>backend := controller1\<rparr>)) = Inr info"
    by (simp add: terminate_defs action_defs example_defs controller1_def)
  have ok2: "\<exists>info. fst (terminate_connection ctl_helpers volume1 [(''initiator'', PStr ''iqn.test'')]
      (world0\<lparr>backend := controller1\<rparr>)) = Inr info"
    by (simp add: terminate_defs action_defs example_defs controller1_def)
  from ok1 obtain info1 where r1: "terminate_connection ctl_helpers volume1 connector1
      (world0\<lparr>backend := controller1\<rparr>) = (Inr info1, snd (terminate_connection ctl_helpers
      volume1 connector1 (world0\<lparr>backend := controller1\<rparr>)))"
    by (auto simp: prod_eq_iff)
  from ok2 obtain info2 where r2: "terminate_connection ctl_helpers volume1
      [(''initiator'', PStr ''iqn.test'')] (world0\<lparr>backend := controller1\<rparr>) =
      (Inr info2, snd (terminate_connection ctl_helpers volume1
      [(''initiator'', PStr ''iqn.test'')] (world0\<lparr>backend := controller1\<rparr>)))"
    by (auto simp: prod_eq_iff)
  from terminate_connection_descriptor [OF r1]
  have "info1 = [(''driver_volume_type'', PStr ''iscsi''), (''data'', PDict [])]"
    by (simp add: connector1_def)
  moreover from terminate_connection_descriptor [OF r2] have "info2 = []" by simp
  moreover from r1 have "fst (terminate_connection ctl_helpers volume1 connector1
      (world0\<lparr>backend := controller1\<rparr>)) = Inr info1" by (simp add: prod_eq_iff)
  moreover from r2 have "fst (terminate_connection ctl_helpers volume1
      [(''initiator'', PStr ''iqn.test'')] (world0\<lparr>backend := controller1\<rparr>)) = Inr info2"
    by (simp add: prod_eq_iff)
  ultimately show ?thesis by simp
qed

text \<open>A connector without the key \<^verbatim>\<open>host\<close>: the volume is unmapped from the host the
  controller knows it is mapped to, the call returns, and what it returns is \<^verbatim>\<open>{}\<close>.\<close>

theorem terminate_connection_descriptor_counterexample:
  "fst (terminate_connection ctl_helpers volume1 [(''initiator'', PStr ''iqn.test'')]
          (world0\<lparr>backend := controller1\<rparr>)) = Inr [] \<and>
   fst (terminate_connection ctl_helpers volume1 [(''initiator'', PStr ''iqn.test'')]
          (world0\<lparr>backend := controller1\<rparr>)) \<noteq>
     Inr [(''driver_volume_type'', PStr ''iscsi''), (''data'', PDict [])] \<and>
   lshostvdiskmap (backend (snd (terminate_connection ctl_helpers volume1
          [(''initiator'', PStr ''iqn.test'')] (world0\<lparr>backend := controller1\<rparr>)))) = []"
  by (simp add: terminate_defs action_defs example_defs controller1_def)







subsection \<open>\<^verbatim>\<open>initialize_connection\<close>\<close>

lemma terminate_connection_body_trace:
  assumes "terminate_connection_body h volume connector w = (r, w')"
  shows "\<exists>evs. trace w' = trace w @ evs \<and> (\<forall>e \<in> set evs. teardown_event e)"
  using assms
  by (auto simp: terminate_connection_body_def action_defs
      split: sum.splits prod.splits option.splits if_splits)

lemma terminate_connection_trace:
  assumes "terminate_connection h volume connector w = (r, w')"
  shows "\<exists>evs. trace w' = trace w @ evs \<and> (\<forall>e \<in> set evs. teardown_event e)"
proof -
  from assms have "synchronized (terminate_connection_body h volume connector) w = (r, w')"
    by (simp add: terminate_connection_def)
  from synchronized_events [OF this]
  show ?thesis
  proof
    assume "r = Inl Blocked \<and> trace w' = trace w"
    then have "trace w' = trace w @ [] \<and> (\<forall>e \<in> set []. teardown_event e)" by simp
    then show ?thesis by blast
  next
    assume "\<exists>w0 w1. terminate_connection_body h volume connector w0 = (r, w1) \<and> lock_held w0 \<and>
        trace w0 = trace w \<and> trace w1 = trace w' \<and> new_events w0 w1 = new_events w w' \<and>
        backend w0 = backend w"
    then obtain w0 w1 where body: "terminate_connection_body h volume connector w0 = (r, w1)"
      and t0: "trace w0 = trace w" and t1: "trace w1 = trace w'"
      by blast
    from terminate_connection_body_trace [OF body] show ?thesis
      by (simp add: t0 t1)
  qed
qed

lemma collect_properties_trace:
  assumes "collect_properties self vol_opts volume connector chap_secret lun_id pref iogrp w
             = (r, w')"
  shows "\<exists>evs. trace w' = trace w @ evs \<and> (\<forall>e \<in> set evs. \<exists>l msg args. e = Log l msg args)"
  using assms
  by (auto simp: collect_properties_def select_serving_node_def action_defs
      split: sum.splits prod.splits option.splits list.splits if_splits)


lemma chap_properties_secret:
  assumes "chap_properties connector (Some secret) = Inr auth" and "secret \<noteq> []"
  shows "\<exists>initiator. map_of connector ''initiator'' = Some initiator \<and>
           auth = [(''auth_method'', PStr ''CHAP''),
                   (''auth_username'', initiator),
                   (''auth_password'', PStr secret),
                   (''discovery_auth_method'', PStr ''CHAP''),
                   (''discovery_auth_username'', initiator),
                   (''discovery_auth_password'', PStr secret)]"
  using assms by (auto simp: chap_properties_def split: option.splits)

lemma collect_properties_auth:
  assumes run: "collect_properties self vol_opts volume connector chap_secret lun_id pref iogrp w
             = (Inr props, w')"
  shows "\<exists>(n::node) ipaddr auth. chap_properties connector chap_secret = Inr auth \<and>
           props = [(''target_discovered'', PBool False),
                    (''target_lun'', PInt lun_id),
                    (''volume_id'', PStr (vol_id volume)),
                    (''target_portal'', PStr (ipaddr @ '':3260'')),
                    (''target_iqn'', PStr (iscsi_name n))] @ auth"
  using run
  by (auto simp: collect_properties_def and_then_def ret_def raise_def
      split: sum.splits prod.splits)

lemma collect_properties_returns:
  assumes "collect_properties self vol_opts volume connector chap_secret lun_id pref iogrp w
             = (Inr props, w')"
  shows "(\<exists>evs. trace w' = trace w @ evs \<and> (\<forall>e \<in> set evs. \<exists>l msg args. e = Log l msg args)) \<and>
         (\<exists>(n::node) ipaddr auth. chap_properties connector chap_secret = Inr auth \<and>
           props = [(''target_discovered'', PBool False),
                    (''target_lun'', PInt lun_id),
                    (''volume_id'', PStr (vol_id volume)),
                    (''target_portal'', PStr (ipaddr @ '':3260'')),
                    (''target_iqn'', PStr (iscsi_name n))] @ auth)"
  using collect_properties_trace [OF assms] collect_properties_auth [OF assms] by simp

lemma initialize_connection_halves:
  "initialize_connection_body h self volume connector =
     and_then (LOG DEBUG ''enter: initialize_connection: volume %(vol)s with connector %(conn)s''
                 [PStr (vol_id volume), PDict connector]) (\<lambda>_.
     and_then (invoke (Call_get_vdisk_params (volume_type_id volume))
                 (get_vdisk_params h (volume_type_id volume))) (\<lambda>vol_opts.
     and_then (invoke (Call_get_host_from_connector connector)
                 (get_host_from_connector h connector)) (\<lambda>found.
     and_then (case found of
                 None \<Rightarrow> invoke (Call_create_host connector) (create_host h connector)
               | Some hn \<Rightarrow> ret hn) (\<lambda>host_name.
     and_then (invoke (Call_get_chap_secret_for_host host_name)
                 (get_chap_secret_for_host h host_name)) (\<lambda>existing.
     and_then
       (if storwize_svc_iscsi_chap_enabled self \<and> existing = None
        then and_then (invoke (Call_add_chap_secret_to_host host_name)
                         (add_chap_secret_to_host h host_name)) (\<lambda>s. ret (Some s))
        else if \<not> storwize_svc_iscsi_chap_enabled self \<and> truthy existing
        then and_then (LOG WARNING ''CHAP secret exists for host but CHAP is disabled.'' [])
               (\<lambda>_. ret existing)
        else ret existing) (\<lambda>chap_secret.
     connect_volume h self volume connector vol_opts host_name chap_secret))))))"
  by (simp add: initialize_connection_body_def connect_volume_def)

lemma collect_properties_teardown:
  assumes "collect_properties self vol_opts volume connector chap_secret lun_id pref iogrp w
             = (r, w')"
  shows "\<exists>evs. trace w' = trace w @ evs \<and> (\<forall>e \<in> set evs. teardown_event e)"
proof -
  from collect_properties_trace [OF assms] obtain evs
    where evs: "trace w' = trace w @ evs"
      and logs: "\<forall>e \<in> set evs. \<exists>l msg args. e = Log l msg args"
    by blast
  from logs have "\<forall>e \<in> set evs. teardown_event e" by fastforce
  with evs show ?thesis by blast
qed

lemma teardown_connect_event: "teardown_event e \<Longrightarrow> connect_event e"
  by (cases e) simp_all

lemma log_connect_event: "connect_event (Log l msg args)"
  by simp

lemma connect_volume_trace:
  assumes "connect_volume h self volume connector vol_opts host_name chap_secret w = (r, w')"
  shows "\<exists>evs. trace w' = trace w @ evs \<and> (\<forall>e \<in> set evs. connect_event e)"
  using assms
  by (auto simp: connect_volume_def save_and_reraise_exception_def volume_placement_def
      action_defs
      split: sum.splits prod.splits option.splits if_splits
      dest!: collect_properties_teardown terminate_connection_trace)
     (blast intro: teardown_connect_event)+

lemma connect_volume_no_chap:
  assumes "connect_volume h self volume connector vol_opts host_name chap_secret w = (r, w')"
  shows "\<exists>evs. trace w' = trace w @ evs \<and>
           (\<forall>hn res. Call_add_chap_secret_to_host hn res \<notin> set evs) \<and>
           (\<forall>hn res. Call_get_chap_secret_for_host hn res \<notin> set evs)"
proof -
  from connect_volume_trace [OF assms] obtain evs
    where evs: "trace w' = trace w @ evs" and kind: "\<forall>e \<in> set evs. connect_event e"
    by blast
  have "Call_add_chap_secret_to_host hn res \<notin> set evs" for hn res
    using kind by (auto dest: bspec)
  moreover have "Call_get_chap_secret_for_host hn res \<notin> set evs" for hn res
    using kind by (auto dest: bspec)
  ultimately show ?thesis using evs by blast
qed

lemma initialize_connection_body_chap_events:
  assumes run: "initialize_connection_body h self volume connector w = (r, w')"
    and existing: "Call_get_chap_secret_for_host host (Inr (Some secret)) \<in> set (new_events w w')"
    and named: "secret \<noteq> []"
    and disabled: "\<not> storwize_svc_iscsi_chap_enabled self"
  shows "Log WARNING ''CHAP secret exists for host but CHAP is disabled.'' []
           \<in> set (new_events w w') \<and>
         (\<forall>hn res. Call_add_chap_secret_to_host hn res \<notin> set (new_events w w'))"
  using assms
  by (auto simp: initialize_connection_halves action_defs
      split: sum.splits prod.splits option.splits if_splits
      dest!: connect_volume_no_chap)


lemma initialize_connection_body_returns:
  assumes run: "initialize_connection_body h self volume connector w = (Inr info, w')"
    and existing: "Call_get_chap_secret_for_host host (Inr (Some secret)) \<in> set (new_events w w')"
    and named: "secret \<noteq> []"
    and disabled: "\<not> storwize_svc_iscsi_chap_enabled self"
  shows "(\<exists>(n::node) ipaddr lun_id auth.
           chap_properties connector (Some secret) = Inr auth \<and>
           info = [(''driver_volume_type'', PStr ''iscsi''),
                   (''data'', PDict ([(''target_discovered'', PBool False),
                    (''target_lun'', PInt lun_id),
                    (''volume_id'', PStr (vol_id volume)),
                    (''target_portal'', PStr (ipaddr @ '':3260'')),
                    (''target_iqn'', PStr (iscsi_name n))] @ auth))]) \<and>
         (\<forall>hn res. Call_delete_host hn res \<notin> set (new_events w w'))"
  using assms
  by (auto simp: initialize_connection_body_def save_and_reraise_exception_def volume_placement_def
      action_defs
      split: sum.splits prod.splits option.splits if_splits
      dest!: collect_properties_returns)

text \<open>C2, as the code has it. In an \<^verbatim>\<open>initialize_connection\<close> with CHAP disabled in the
  configuration whose \<^verbatim>\<open>get_chap_secret_for_host\<close> returned a non-empty secret: the
  warning that a secret exists although CHAP is disabled is logged, no secret is
  installed, and when the call returns it has deleted no host and the properties it
  returns carry the existing secret: \<^verbatim>\<open>auth_method\<close> and \<^verbatim>\<open>discovery_auth_method\<close>
  are CHAP, the user names are the connector's initiator, the passwords are the
  secret.\<close>

theorem chap_disabled_existing_secret:
  assumes run: "initialize_connection h self volume connector w = (r, w')"
    and disabled: "\<not> storwize_svc_iscsi_chap_enabled self"
    and existing: "Call_get_chap_secret_for_host host (Inr (Some secret)) \<in> set (new_events w w')"
    and named: "secret \<noteq> []"
  shows "Log WARNING ''CHAP secret exists for host but CHAP is disabled.'' []
           \<in> set (new_events w w') \<and>
         (\<forall>hn res. Call_add_chap_secret_to_host hn res \<notin> set (new_events w w')) \<and>
         (\<forall>info. r = Inr info \<longrightarrow>
            (\<forall>hn res. Call_delete_host hn res \<notin> set (new_events w w')) \<and>
            (\<exists>initiator props.
               map_of connector ''initiator'' = Some initiator \<and>
               info = [(''driver_volume_type'', PStr ''iscsi''), (''data'', PDict props)] \<and>
               map_of props ''auth_method'' = Some (PStr ''CHAP'') \<and>
               map_of props ''auth_username'' = Some initiator \<and>
               map_of props ''auth_password'' = Some (PStr secret) \<and>
               map_of props ''discovery_auth_method'' = Some (PStr ''CHAP'') \<and>
               map_of props ''discovery_auth_username'' = Some initiator \<and>
               map_of props ''discovery_auth_password'' = Some (PStr secret)))"
proof -
  from run
  have sync: "synchronized (initialize_connection_body h self volume connector) w = (r, w')"
    by (simp add: initialize_connection_def)
  from existing have "trace w' \<noteq> trace w" by (auto simp: new_events_def)
  with synchronized_events [OF sync] obtain w0 w1
    where body: "initialize_connection_body h self volume connector w0 = (r, w1)"
      and same: "new_events w0 w1 = new_events w w'"
    by auto
  from existing
  have existing': "Call_get_chap_secret_for_host host (Inr (Some secret)) \<in> set (new_events w0 w1)"
    by (simp add: same)
  note events = initialize_connection_body_chap_events [OF body existing' named disabled]
  have attached: "(\<forall>hn res. Call_delete_host hn res \<notin> set (new_events w w')) \<and>
            (\<exists>initiator props.
               map_of connector ''initiator'' = Some initiator \<and>
               info = [(''driver_volume_type'', PStr ''iscsi''), (''data'', PDict props)] \<and>
               map_of props ''auth_method'' = Some (PStr ''CHAP'') \<and>
               map_of props ''auth_username'' = Some initiator \<and>
               map_of props ''auth_password'' = Some (PStr secret) \<and>
               map_of props ''discovery_auth_method'' = Some (PStr ''CHAP'') \<and>
               map_of props ''discovery_auth_username'' = Some initiator \<and>
               map_of props ''discovery_auth_password'' = Some (PStr secret))"
    if ok: "r = Inr info" for info
  proof -
    from body ok
    have body': "initialize_connection_body h self volume connector w0 = (Inr info, w1)"
      by simp
    from initialize_connection_body_returns [OF body' existing' named disabled]
    obtain n :: node and ipaddr lun_id auth
      where auth: "chap_properties connector (Some secret) = Inr auth"
        and info: "info = [(''driver_volume_type'', PStr ''iscsi''),
                   (''data'', PDict ([(''target_discovered'', PBool False),
                    (''target_lun'', PInt lun_id),
                    (''volume_id'', PStr (vol_id volume)),
                    (''target_portal'', PStr (ipaddr @ '':3260'')),
                    (''target_iqn'', PStr (iscsi_name n))] @ auth))]"
        and kept: "\<forall>hn res. Call_delete_host hn res \<notin> set (new_events w w')"
      unfolding same by blast
    from chap_properties_secret [OF auth named] obtain initiator
      where init: "map_of connector ''initiator'' = Some initiator"
        and auth': "auth = [(''auth_method'', PStr ''CHAP''),
                   (''auth_username'', initiator),
                   (''auth_password'', PStr secret),
                   (''discovery_auth_method'', PStr ''CHAP''),
                   (''discovery_auth_username'', initiator),
                   (''discovery_auth_password'', PStr secret)]"
      by blast
    from info auth' init kept show ?thesis by simp
  qed
  from events attached show ?thesis unfolding same by blast
qed

theorem chap_disabled_existing_secret_witness:
  "\<not> storwize_svc_iscsi_chap_enabled driver2 \<and>
   Call_get_chap_secret_for_host ''host-iqn.test'' (Inr (Some ''chap-host-iqn.test''))
     \<in> set (new_events (world0\<lparr>backend := controller1\<rparr>)
          (snd (initialize_connection ctl_helpers driver2 volume1 connector1
                  (world0\<lparr>backend := controller1\<rparr>)))) \<and>
   Log WARNING ''CHAP secret exists for host but CHAP is disabled.'' []
     \<in> set (new_events (world0\<lparr>backend := controller1\<rparr>)
          (snd (initialize_connection ctl_helpers driver2 volume1 connector1
                  (world0\<lparr>backend := controller1\<rparr>)))) \<and>
   Call_add_chap_secret_to_host ''host-iqn.test'' (Inr ''chap-host-iqn.test'')
     \<notin> set (new_events (world0\<lparr>backend := controller1\<rparr>)
          (snd (initialize_connection ctl_helpers driver2 volume1 connector1
                  (world0\<lparr>backend := controller1\<rparr>)))) \<and>
   (\<exists>props. fst (initialize_connection ctl_helpers driver2 volume1 connector1
                  (world0\<lparr>backend := controller1\<rparr>)) =
              Inr [(''driver_volume_type'', PStr ''iscsi''), (''data'', PDict props)] \<and>
            map_of props ''auth_username'' = Some (PStr ''iqn.test'') \<and>
            map_of props ''auth_password'' = Some (PStr ''chap-host-iqn.test''))"
proof -
  let ?w = "world0\<lparr>backend := controller1\<rparr>"
  let ?run = "initialize_connection ctl_helpers driver2 volume1 connector1 ?w"
  have disabled: "\<not> storwize_svc_iscsi_chap_enabled driver2"
    by (simp add: example_defs controller1_def driver2_def)
  have existing: "Call_get_chap_secret_for_host ''host-iqn.test''
      (Inr (Some ''chap-host-iqn.test'')) \<in> set (new_events ?w (snd ?run))"
    by (simp add: initialize_defs select_defs terminate_defs action_defs example_defs
        controller1_def driver2_def)
  have named: "''chap-host-iqn.test'' \<noteq> []" by simp
  have returns: "\<exists>info. fst ?run = Inr info"
    by (simp add: initialize_defs select_defs terminate_defs action_defs example_defs
        controller1_def driver2_def)
  have initiator: "map_of connector1 ''initiator'' = Some (PStr ''iqn.test'')"
    by (simp add: connector1_def)
  note inst = chap_disabled_existing_secret [OF surjective_pairing disabled existing named]
  from inst have warned: "Log WARNING ''CHAP secret exists for host but CHAP is disabled.'' []
      \<in> set (new_events ?w (snd ?run))"
    by blast
  from inst have kept: "Call_add_chap_secret_to_host ''host-iqn.test''
      (Inr ''chap-host-iqn.test'') \<notin> set (new_events ?w (snd ?run))"
    by blast
  from returns obtain info where info: "fst ?run = Inr info" by blast
  with inst initiator obtain props
    where "info = [(''driver_volume_type'', PStr ''iscsi''), (''data'', PDict props)]"
      and "map_of props ''auth_username'' = Some (PStr ''iqn.test'')"
      and "map_of props ''auth_password'' = Some (PStr ''chap-host-iqn.test'')"
    by auto
  with info have attached: "\<exists>props. fst ?run =
              Inr [(''driver_volume_type'', PStr ''iscsi''), (''data'', PDict props)] \<and>
            map_of props ''auth_username'' = Some (PStr ''iqn.test'') \<and>
            map_of props ''auth_password'' = Some (PStr ''chap-host-iqn.test'')"
    by blast
  from disabled existing warned kept attached show ?thesis by (intro conjI)
qed


text \<open>CHAP is disabled, the host of the connector has a secret on the controller, and
  the properties returned carry it.\<close>

theorem chap_disabled_existing_secret_counterexample:
  "\<not> storwize_svc_iscsi_chap_enabled driver2 \<and>
   fst (get_chap_secret_for_host ctl_helpers ''host-iqn.test'' controller1) =
     Inr (Some ''chap-host-iqn.test'') \<and>
   fst (initialize_connection ctl_helpers driver2 volume1 connector1
          (world0\<lparr>backend := controller1\<rparr>)) =
     Inr [(''driver_volume_type'', PStr ''iscsi''),
          (''data'', PDict
             [(''target_discovered'', PBool False), (''target_lun'', PInt 0),
              (''volume_id'', PStr ''V1''),
              (''target_portal'', PStr ''10.0.0.5:3260''),
              (''target_iqn'', PStr ''iqn.1986-03.com.ibm:2145.cluster.node1''),
              (''auth_method'', PStr ''CHAP''),
              (''auth_username'', PStr ''iqn.test''),
              (''auth_password'', PStr ''chap-host-iqn.test''),
              (''discovery_auth_method'', PStr ''CHAP''),
              (''discovery_auth_username'', PStr ''iqn.test''),
              (''discovery_auth_password'', PStr ''chap-host-iqn.test'')])]"
  by (simp add: initialize_defs select_defs terminate_defs action_defs example_defs
      controller1_def driver2_def)

subsection \<open>Rollback\<close>

text \<open>The rollback of line 235 calls \<^verbatim>\<open>self.terminate_connection\<close>, which takes the lock
  that \<^verbatim>\<open>initialize_connection\<close> holds: the handler does not return. So a failure of the
  second \<^verbatim>\<open>try\<close> ends in a call that is blocked, and \<^verbatim>\<open>initialize_connection\<close> never
  unmaps a volume. The two attribute lookups of lines 178--186 come after the mapping
  and before that \<^verbatim>\<open>try\<close>: an \<^verbatim>\<open>initialize_connection\<close> that raises after a successful
  \<^verbatim>\<open>map_vol_to_host\<close> raises the missing-attribute exception.\<close>

lemma collect_properties_lock:
  assumes "collect_properties self vol_opts volume connector chap_secret lun_id pref iogrp w
             = (r, w')"
  shows "lock_held w' = lock_held w \<and> backend w' = backend w"
  using assms
  by (auto simp: collect_properties_def select_serving_node_def action_defs
      split: sum.splits prod.splits option.splits list.splits if_splits)

lemma terminate_connection_held:
  "lock_held w \<Longrightarrow> terminate_connection h volume connector w = (Inl Blocked, w)"
  by (simp add: terminate_connection_def synchronized_held)

lemma guarded_collect:
  assumes held: "lock_held w"
  shows "save_and_reraise_exception
           (collect_properties self vol_opts volume connector chap_secret lun_id pref iogrp)
           (and_then (terminate_connection h volume connector) f) w =
         (case collect_properties self vol_opts volume connector chap_secret lun_id pref iogrp w of
            (Inr props, w1) \<Rightarrow> (Inr props, w1)
          | (Inl e, w1) \<Rightarrow> (Inl Blocked, w1))"
proof -
  obtain r w1 where run: "collect_properties self vol_opts volume connector chap_secret lun_id
      pref iogrp w = (r, w1)"
    by (cases "collect_properties self vol_opts volume connector chap_secret lun_id
      pref iogrp w") blast
  from collect_properties_lock [OF run] held have "lock_held w1" by simp
  then have "and_then (terminate_connection h volume connector) f w1 = (Inl Blocked, w1)"
    by (simp add: and_then_def terminate_connection_held)
  with run show ?thesis
    by (simp add: save_and_reraise_exception_def split: sum.splits)
qed

lemma connect_volume_rollback:
  assumes "connect_volume h self volume connector vol_opts host_name chap_secret w = (Inl e, w')"
    and "lock_held w"
  shows "\<exists>evs. trace w' = trace w @ evs \<and>
           ((\<exists>v hn m lun. Call_map_vol_to_host v hn m (Inr lun) \<in> set evs) \<longrightarrow>
            e = Blocked \<or>
            e = VolumeBackendAPIException
                  (''initialize_connection: Missing volume attribute for volume '' @
                   vol_name volume @ ''.''))"
  using assms
  by (auto simp: connect_volume_def guarded_collect volume_placement_def
      action_defs
      split: sum.splits prod.splits option.splits if_splits
      dest!: collect_properties_trace)

lemma logs_no_unmap:
  "Call_unmap_vol_from_host v hn res \<in> set evs \<Longrightarrow>
     \<forall>e \<in> set evs. \<exists>l msg args. e = Log l msg args \<Longrightarrow> False"
  by (auto dest: bspec)

lemma connect_volume_no_unmap:
  assumes "connect_volume h self volume connector vol_opts host_name chap_secret w = (r, w')"
    and "lock_held w"
  shows "\<exists>evs. trace w' = trace w @ evs \<and>
           (\<forall>v hn res. Call_unmap_vol_from_host v hn res \<notin> set evs)"
  using assms
  by (auto simp: connect_volume_def guarded_collect volume_placement_def
      action_defs
      split: sum.splits prod.splits option.splits if_splits
      dest!: collect_properties_trace)
     (blast dest: logs_no_unmap)+


lemma initialize_connection_body_rollback:
  assumes run: "initialize_connection_body h self volume connector w = (Inl e, w')"
    and held: "lock_held w"
    and mapped: "Call_map_vol_to_host v hn m (Inr lun) \<in> set (new_events w w')"
  shows "e = Blocked \<or>
         e = VolumeBackendAPIException
               (''initialize_connection: Missing volume attribute for volume '' @
                vol_name volume @ ''.'')"
  using assms
  by (auto simp: initialize_connection_halves action_defs
      split: sum.splits prod.splits option.splits if_splits
      dest!: connect_volume_rollback)

lemma initialize_connection_body_no_unmap:
  assumes run: "initialize_connection_body h self volume connector w = (r, w')"
    and held: "lock_held w"
  shows "\<forall>v hn res. Call_unmap_vol_from_host v hn res \<notin> set (new_events w w')"
  using assms
  by (auto simp: initialize_connection_halves action_defs
      split: sum.splits prod.splits option.splits if_splits
      dest!: connect_volume_no_unmap)

lemma rollback_blocks:
  assumes run: "initialize_connection h self volume connector w = (Inl e, w')"
    and mapped: "Call_map_vol_to_host v hn m (Inr lun) \<in> set (new_events w w')"
  shows "e = Blocked \<or>
         e = VolumeBackendAPIException
               (''initialize_connection: Missing volume attribute for volume '' @
                vol_name volume @ ''.'')"
proof -
  from run have "synchronized (initialize_connection_body h self volume connector) w = (Inl e, w')"
    by (simp add: initialize_connection_def)
  from synchronized_events [OF this]
  show ?thesis
  proof
    assume "Inl e = Inl Blocked \<and> trace w' = trace w"
    then show ?thesis by simp
  next
    assume "\<exists>w0 w1. initialize_connection_body h self volume connector w0 = (Inl e, w1) \<and>
        lock_held w0 \<and> trace w0 = trace w \<and> trace w1 = trace w' \<and>
        new_events w0 w1 = new_events w w' \<and> backend w0 = backend w"
    then obtain w0 w1
      where body: "initialize_connection_body h self volume connector w0 = (Inl e, w1)"
        and held: "lock_held w0" and same: "new_events w0 w1 = new_events w w'"
      by blast
    from mapped have "Call_map_vol_to_host v hn m (Inr lun) \<in> set (new_events w0 w1)"
      by (simp add: same)
    from initialize_connection_body_rollback [OF body held this] show ?thesis .
  qed
qed

lemma initialize_connection_never_unmaps:
  assumes run: "initialize_connection h self volume connector w = (r, w')"
  shows "\<forall>v hn res. Call_unmap_vol_from_host v hn res \<notin> set (new_events w w')"
proof -
  from run have "synchronized (initialize_connection_body h self volume connector) w = (r, w')"
    by (simp add: initialize_connection_def)
  from synchronized_events [OF this]
  show ?thesis
  proof
    assume "r = Inl Blocked \<and> trace w' = trace w"
    then show ?thesis by (simp add: new_events_def)
  next
    assume "\<exists>w0 w1. initialize_connection_body h self volume connector w0 = (r, w1) \<and>
        lock_held w0 \<and> trace w0 = trace w \<and> trace w1 = trace w' \<and>
        new_events w0 w1 = new_events w w' \<and> backend w0 = backend w"
    then obtain w0 w1
      where body: "initialize_connection_body h self volume connector w0 = (r, w1)"
        and held: "lock_held w0" and same: "new_events w0 w1 = new_events w w'"
      by blast
    from initialize_connection_body_no_unmap [OF body held] show ?thesis
      by (simp add: same)
  qed
qed


text \<open>C1. Every failure after the volume has been mapped is to be rolled back by a
  \<^verbatim>\<open>terminate_connection\<close> for the same volume and connector. The code misses one: for a
  volume whose attributes lack \<^verbatim>\<open>preferred_node_id\<close>, \<^verbatim>\<open>initialize_connection\<close> creates
  the host and the mapping, raises \<^verbatim>\<open>VolumeBackendAPIException\<close>, and does not call
  \<^verbatim>\<open>terminate_connection\<close>; the mapping is still on the controller afterwards.\<close>

theorem missing_attribute_leaves_mapping:
  "fst (initialize_connection ctl_helpers driver1 volume1 connector1
          (world0\<lparr>backend := controller3\<rparr>)) =
     Inl (VolumeBackendAPIException
            ''initialize_connection: Missing volume attribute for volume volume-V1.'') \<and>
   new_events (world0\<lparr>backend := controller3\<rparr>)
     (snd (initialize_connection ctl_helpers driver1 volume1 connector1
             (world0\<lparr>backend := controller3\<rparr>))) =
     [Log DEBUG ''enter: initialize_connection: volume %(vol)s with connector %(conn)s''
        [PStr ''V1'', PDict connector1],
      Call_get_vdisk_params None (Inr \<lparr>protocol = ''iSCSI''\<rparr>),
      Call_get_host_from_connector connector1 (Inr None),
      Call_create_host connector1 (Inr ''host-iqn.test''),
      Call_get_chap_secret_for_host ''host-iqn.test'' (Inr None),
      Call_add_chap_secret_to_host ''host-iqn.test'' (Inr ''chap-host-iqn.test''),
      Call_get_vdisk_attributes ''volume-V1'' (Inr (Some [(''IO_group_id'', ''0'')])),
      Call_map_vol_to_host ''volume-V1'' ''host-iqn.test'' True (Inr 0),
      Log ERROR ''Did not find expected column name in lsvdisk: %s.''
        [PStr ''preferred_node_id'']] \<and>
   lshostvdiskmap (backend (snd (initialize_connection ctl_helpers driver1 volume1 connector1
             (world0\<lparr>backend := controller3\<rparr>)))) =
     [(''volume-V1'', ''host-iqn.test'', 0)]"
  by (simp add: initialize_defs select_defs terminate_defs action_defs example_defs
      controller3_def)

subsection \<open>A volume without a serving node\<close>

text \<open>Node selection is the first step of the second \<^verbatim>\<open>try\<close>. An
  \<^verbatim>\<open>initialize_connection\<close> that has mapped the volume and finds no node with the
  protocol enabled in the volume's I/O group logs the error of node selection and raises
  it inside the \<^verbatim>\<open>try\<close>; the handler then waits for the lock, so the call does not
  return, nothing is unmapped, and the controller stays as \<^verbatim>\<open>map_vol_to_host\<close> left it.\<close>

lemma select_serving_node_empty_group:
  assumes "\<forall>n \<in> set nodes. proto \<in> set (enabled_protocols n) \<longrightarrow> IO_group n \<noteq> iogrp"
  shows "select_serving_node proto preferred_node iogrp volume_name nodes w =
           (Inl (VolumeBackendAPIException (no_node_found iogrp volume_name)),
            w\<lparr>trace := trace w @ [Log ERROR (no_node_found iogrp volume_name) []]\<rparr>)"
proof -
  from assms
  have "filter (\<lambda>n. proto \<in> set (enabled_protocols n) \<and> IO_group n = iogrp) nodes = []"
    by (auto simp: filter_empty_conv)
  then show ?thesis
    by (simp add: select_serving_node_def scan_storage_nodes_eq action_defs)
qed

lemma collect_properties_no_serving_node:
  assumes "\<forall>(k, n) \<in> set (storage_nodes self).
             protocol vol_opts \<in> set (enabled_protocols n) \<longrightarrow> IO_group n \<noteq> iogrp"
  shows "collect_properties self vol_opts volume connector chap_secret lun_id pref iogrp w =
           (Inl (VolumeBackendAPIException (no_node_found iogrp (vol_name volume))),
            w\<lparr>trace := trace w @ [Log ERROR (no_node_found iogrp (vol_name volume)) []]\<rparr>)"
proof -
  from assms have "\<forall>n \<in> set (map snd (storage_nodes self)).
      protocol vol_opts \<in> set (enabled_protocols n) \<longrightarrow> IO_group n \<noteq> iogrp"
    by auto
  from select_serving_node_empty_group [OF this, of pref "vol_name volume" w]
  show ?thesis
    by (simp add: collect_properties_def and_then_def)
qed

lemma teardown_no_map:
  "Call_map_vol_to_host v hn m r \<in> set evs \<Longrightarrow> \<forall>e \<in> set evs. teardown_event e \<Longrightarrow> False"
  by (auto dest: bspec)

lemma teardown_no_attributes:
  "Call_get_vdisk_attributes vn r \<in> set evs \<Longrightarrow> \<forall>e \<in> set evs. teardown_event e \<Longrightarrow> False"
  by (auto dest: bspec)


lemma connect_volume_blocks_without_node:
  assumes run: "connect_volume h self volume connector vol_opts host_name chap_secret w = (r, w')"
    and held: "lock_held w"
    and A: "get_vdisk_attributes h (vol_name volume) (backend w) = (Inr (Some attrs), b1)"
    and M: "map_vol_to_host h (vol_name volume) host_name
             (storwize_svc_multihostmap_enabled self) b1 = (Inr lun, b2)"
    and pref: "map_of attrs ''preferred_node_id'' = Some p"
    and iog: "map_of attrs ''IO_group_id'' = Some iogrp"
    and none: "\<forall>(k, n) \<in> set (storage_nodes self).
             protocol vol_opts \<in> set (enabled_protocols n) \<longrightarrow> IO_group n \<noteq> iogrp"
  shows "r = Inl Blocked \<and>
         new_events w w' =
           [Call_get_vdisk_attributes (vol_name volume) (Inr (Some attrs)),
            Call_map_vol_to_host (vol_name volume) host_name
              (storwize_svc_multihostmap_enabled self) (Inr lun),
            Log ERROR (no_node_found iogrp (vol_name volume)) []] \<and>
         backend w' = b2"
proof -
  note collect = collect_properties_no_serving_node [OF none]
  from run show ?thesis
    by (auto simp: connect_volume_def guarded_collect volume_placement_def
        action_defs A M pref iog collect held)
qed

lemma connect_volume_path:
  assumes run: "connect_volume h self volume connector vol_opts host_name chap_secret w = (r, w')"
    and held: "lock_held w"
    and mapped: "Call_map_vol_to_host v hn m (Inr lun) \<in> set (new_events w w')"
  shows "\<exists>attrs b1 b2.
           get_vdisk_attributes h (vol_name volume) (backend w) = (Inr (Some attrs), b1) \<and>
           map_vol_to_host h (vol_name volume) host_name
             (storwize_svc_multihostmap_enabled self) b1 = (Inr lun, b2) \<and>
           (\<forall>vn a. Call_get_vdisk_attributes vn (Inr (Some a)) \<in> set (new_events w w') \<longrightarrow>
                    a = attrs)"
  using assms
  by (auto simp: connect_volume_def guarded_collect volume_placement_def
      action_defs
      split: sum.splits prod.splits option.splits if_splits
      dest!: collect_properties_teardown)
     (blast dest: teardown_no_map teardown_no_attributes)+

lemma second_halfI:
  assumes "connect_volume h self volume connector vo hn cs
             (w\<lparr>backend := b, trace := trace w @ pre\<rparr>) = (r, w')"
    and "lock_held w"
    and "(\<forall>vn res. Call_get_vdisk_attributes vn res \<notin> set pre) \<and>
              (\<forall>v hn m res. Call_map_vol_to_host v hn m res \<notin> set pre)"
    and "\<forall>t v. Call_get_vdisk_params t (Inr v) \<in> set pre \<longrightarrow> v = vo"
  shows "\<exists>vol_opts host_name chap_secret w5.
           connect_volume h self volume connector vol_opts host_name chap_secret w5 = (r, w') \<and>
           lock_held w5 \<and>
           (\<exists>pre. trace w5 = trace w @ pre \<and>
              (\<forall>vn res. Call_get_vdisk_attributes vn res \<notin> set pre) \<and>
              (\<forall>v hn m res. Call_map_vol_to_host v hn m res \<notin> set pre) \<and>
              (\<forall>t vo. Call_get_vdisk_params t (Inr vo) \<in> set pre \<longrightarrow> vo = vol_opts))"
proof (intro exI conjI)
  show "connect_volume h self volume connector vo hn cs
             (w\<lparr>backend := b, trace := trace w @ pre\<rparr>) = (r, w')" by fact
  show "lock_held (w\<lparr>backend := b, trace := trace w @ pre\<rparr>)" using assms(2) by simp
  show "trace (w\<lparr>backend := b, trace := trace w @ pre\<rparr>) = trace w @ pre" by simp
  show "\<forall>vn res. Call_get_vdisk_attributes vn res \<notin> set pre" using assms(3) by blast
  show "\<forall>v hn m res. Call_map_vol_to_host v hn m res \<notin> set pre" using assms(3) by blast
  show "\<forall>t v. Call_get_vdisk_params t (Inr v) \<in> set pre \<longrightarrow> v = vo" by fact
qed

lemma initialize_connection_second_half:
  assumes run: "initialize_connection_body h self volume connector w = (r, w')"
    and held: "lock_held w"
    and mapped: "Call_map_vol_to_host v hn m res \<in> set (new_events w w')"
  shows "\<exists>vol_opts host_name chap_secret w5.
           connect_volume h self volume connector vol_opts host_name chap_secret w5 = (r, w') \<and>
           lock_held w5 \<and>
           (\<exists>pre. trace w5 = trace w @ pre \<and>
              (\<forall>vn res. Call_get_vdisk_attributes vn res \<notin> set pre) \<and>
              (\<forall>v hn m res. Call_map_vol_to_host v hn m res \<notin> set pre) \<and>
              (\<forall>t vo. Call_get_vdisk_params t (Inr vo) \<in> set pre \<longrightarrow> vo = vol_opts))"
  using assms
  by (auto simp: initialize_connection_halves action_defs
      split: sum.splits prod.splits option.splits if_splits)
     (erule second_halfI; simp)+

lemma connect_event_no_params:
  "Call_get_vdisk_params t res \<in> set evs \<Longrightarrow> \<forall>e \<in> set evs. connect_event e \<Longrightarrow> False"
  by (auto dest: bspec)

lemma initialize_connection_body_blocks:
  assumes run: "initialize_connection_body h self volume connector w = (r, w')"
    and held: "lock_held w"
    and params: "Call_get_vdisk_params t (Inr vol_opts) \<in> set (new_events w w')"
    and attrs: "Call_get_vdisk_attributes vn (Inr (Some attrs)) \<in> set (new_events w w')"
    and mapped: "Call_map_vol_to_host v hn m (Inr lun) \<in> set (new_events w w')"
    and pref: "map_of attrs ''preferred_node_id'' = Some p"
    and iog: "map_of attrs ''IO_group_id'' = Some iogrp"
    and none: "\<forall>(k, n) \<in> set (storage_nodes self).
             protocol vol_opts \<in> set (enabled_protocols n) \<longrightarrow> IO_group n \<noteq> iogrp"
  shows "r = Inl Blocked \<and>
         Log ERROR (no_node_found iogrp (vol_name volume)) [] \<in> set (new_events w w') \<and>
         (\<exists>b1 host_name. map_vol_to_host h (vol_name volume) host_name
             (storwize_svc_multihostmap_enabled self) b1 = (Inr lun, backend w'))"
proof -
  from initialize_connection_second_half [OF run held mapped]
  obtain vo host_name cs w5 pre
    where sub: "connect_volume h self volume connector vo host_name cs w5 = (r, w')"
      and held5: "lock_held w5"
      and pre: "trace w5 = trace w @ pre"
      and pre_attrs: "\<forall>vn res. Call_get_vdisk_attributes vn res \<notin> set pre"
      and pre_map: "\<forall>v hn m res. Call_map_vol_to_host v hn m res \<notin> set pre"
      and pre_params: "\<forall>t vo'. Call_get_vdisk_params t (Inr vo') \<in> set pre \<longrightarrow> vo' = vo"
    by blast
  from connect_volume_trace [OF sub] obtain evs
    where evs: "trace w' = trace w5 @ evs" and kind: "\<forall>e \<in> set evs. connect_event e"
    by blast
  have all: "new_events w w' = pre @ evs" and later: "new_events w5 w' = evs"
    by (simp_all add: new_events_def pre evs)
  from params all have "Call_get_vdisk_params t (Inr vol_opts) \<in> set pre \<or>
      Call_get_vdisk_params t (Inr vol_opts) \<in> set evs" by simp
  with kind connect_event_no_params have "Call_get_vdisk_params t (Inr vol_opts) \<in> set pre"
    by blast
  with pre_params have vo: "vo = vol_opts" by blast
  from attrs all pre_attrs
  have attrs': "Call_get_vdisk_attributes vn (Inr (Some attrs)) \<in> set (new_events w5 w')"
    by (simp add: later)
  from mapped all pre_map
  have mapped': "Call_map_vol_to_host v hn m (Inr lun) \<in> set (new_events w5 w')"
    by (simp add: later)
  from connect_volume_path [OF sub held5 mapped'] attrs'
  obtain b1 b2
    where A: "get_vdisk_attributes h (vol_name volume) (backend w5) = (Inr (Some attrs), b1)"
      and M: "map_vol_to_host h (vol_name volume) host_name
             (storwize_svc_multihostmap_enabled self) b1 = (Inr lun, b2)"
    by blast
  from none vo have none': "\<forall>(k, n) \<in> set (storage_nodes self).
             protocol vo \<in> set (enabled_protocols n) \<longrightarrow> IO_group n \<noteq> iogrp"
    by simp
  from connect_volume_blocks_without_node [OF sub held5 A M pref iog none']
  have r: "r = Inl Blocked"
    and ev: "evs = [Call_get_vdisk_attributes (vol_name volume) (Inr (Some attrs)),
            Call_map_vol_to_host (vol_name volume) host_name
              (storwize_svc_multihostmap_enabled self) (Inr lun),
            Log ERROR (no_node_found iogrp (vol_name volume)) []]"
    and b: "backend w' = b2"
    by (simp_all add: later)
  from ev have "Log ERROR (no_node_found iogrp (vol_name volume)) [] \<in> set (new_events w w')"
    by (simp add: all)
  moreover from M b have "\<exists>b1 host_name. map_vol_to_host h (vol_name volume) host_name
             (storwize_svc_multihostmap_enabled self) b1 = (Inr lun, backend w')"
    by blast
  ultimately show ?thesis using r by blast
qed

lemma no_serving_node_blocks:
  assumes run: "initialize_connection h self volume connector w = (r, w')"
    and params: "Call_get_vdisk_params t (Inr vol_opts) \<in> set (new_events w w')"
    and attrs: "Call_get_vdisk_attributes vn (Inr (Some attrs)) \<in> set (new_events w w')"
    and mapped: "Call_map_vol_to_host v hn m (Inr lun) \<in> set (new_events w w')"
    and pref: "map_of attrs ''preferred_node_id'' = Some p"
    and iog: "map_of attrs ''IO_group_id'' = Some iogrp"
    and none: "\<forall>(k, n) \<in> set (storage_nodes self).
             protocol vol_opts \<in> set (enabled_protocols n) \<longrightarrow> IO_group n \<noteq> iogrp"
  shows "r = Inl Blocked \<and>
         Log ERROR (no_node_found iogrp (vol_name volume)) [] \<in> set (new_events w w') \<and>
         (\<forall>v hn res. Call_unmap_vol_from_host v hn res \<notin> set (new_events w w')) \<and>
         (\<exists>b1 host_name. map_vol_to_host h (vol_name volume) host_name
             (storwize_svc_multihostmap_enabled self) b1 = (Inr lun, backend w'))"
proof -
  from run have sync: "synchronized (initialize_connection_body h self volume connector) w =
      (r, w')"
    by (simp add: initialize_connection_def)
  from mapped have "trace w' \<noteq> trace w" by (auto simp: new_events_def)
  with synchronized_run [OF sync] obtain w1
    where body: "initialize_connection_body h self volume connector (w\<lparr>lock_held := True\<rparr>) =
        (r, w1)"
      and tr: "trace w' = trace w1" and b: "backend w' = backend w1"
    by auto
  have same: "new_events (w\<lparr>lock_held := True\<rparr>) w1 = new_events w w'"
    by (simp add: new_events_def tr)
  have held: "lock_held (w\<lparr>lock_held := True\<rparr>)" by simp
  from initialize_connection_body_blocks [OF body held, of t vol_opts vn attrs v hn m lun p iogrp]
    params attrs mapped pref iog none
  have "r = Inl Blocked \<and>
         Log ERROR (no_node_found iogrp (vol_name volume)) [] \<in> set (new_events w w') \<and>
         (\<exists>b1 host_name. map_vol_to_host h (vol_name volume) host_name
             (storwize_svc_multihostmap_enabled self) b1 = (Inr lun, backend w'))"
    by (simp add: same b)
  with initialize_connection_never_unmaps [OF run] show ?thesis by blast
qed

text \<open>C5. A volume whose I/O group has no node with the protocol enabled is to make
  \<^verbatim>\<open>initialize_connection\<close> fail with \<^verbatim>\<open>VolumeBackendAPIException\<close> (no node found in
  the I/O group, the spec's NoServingNodeInGroup). Node selection raises it, but the
  caller does not get it: for a volume of I/O group 1 and a driver whose nodes are in I/O
  group 0, \<^verbatim>\<open>initialize_connection\<close> creates the host and the mapping, logs the error,
  and is blocked in the rollback; the mapping is still on the controller.\<close>

theorem no_serving_node_never_returns:
  "filter (\<lambda>n. ''iSCSI'' \<in> set (enabled_protocols n) \<and> IO_group n = ''1'')
     (map snd (storage_nodes driver1)) = [] \<and>
   fst (select_serving_node ''iSCSI'' ''3'' ''1'' ''volume-V1'' (map snd (storage_nodes driver1))
          world0) =
     Inl (VolumeBackendAPIException
            ''initialize_connection: No node found in I/O group 1 for volume volume-V1.'') \<and>
   fst (initialize_connection ctl_helpers driver1 volume1 connector1
          (world0\<lparr>backend := controller6\<rparr>)) = Inl Blocked \<and>
   new_events (world0\<lparr>backend := controller6\<rparr>)
     (snd (initialize_connection ctl_helpers driver1 volume1 connector1
             (world0\<lparr>backend := controller6\<rparr>))) =
     [Log DEBUG ''enter: initialize_connection: volume %(vol)s with connector %(conn)s''
        [PStr ''V1'', PDict connector1],
      Call_get_vdisk_params None (Inr \<lparr>protocol = ''iSCSI''\<rparr>),
      Call_get_host_from_connector connector1 (Inr None),
      Call_create_host connector1 (Inr ''host-iqn.test''),
      Call_get_chap_secret_for_host ''host-iqn.test'' (Inr None),
      Call_add_chap_secret_to_host ''host-iqn.test'' (Inr ''chap-host-iqn.test''),
      Call_get_vdisk_attributes ''volume-V1''
        (Inr (Some [(''preferred_node_id'', ''3''), (''IO_group_id'', ''1'')])),
      Call_map_vol_to_host ''volume-V1'' ''host-iqn.test'' True (Inr 0),
      Log ERROR ''initialize_connection: No node found in I/O group 1 for volume volume-V1.''
        []] \<and>
   lshostvdiskmap (backend (snd (initialize_connection ctl_helpers driver1 volume1 connector1
             (world0\<lparr>backend := controller6\<rparr>)))) =
     [(''volume-V1'', ''host-iqn.test'', 0)]"
  by (simp add: initialize_defs select_defs terminate_defs action_defs example_defs
      controller6_def)

end
